theory Spec2Isabelle
  imports Main
begin

section \<open>Data model (types.ts)\<close>

text \<open>
  An identifier of the store is a 12-byte value, read here as a natural number.  In the
  resolvers it travels as an \<open>ObjectId\<close> object of the driver.  A JavaScript object has an
  identity besides its content: \<open>===\<close>, \<open>!==\<close> and \<open>Array.prototype.includes\<close> compare two
  objects by identity, the filters of the store compare identifiers by content.  The
  identity is the address \<open>addr\<close> at which the object was allocated.
\<close>

type_synonym oid = nat

datatype ObjectId = ObjectId (addr: nat) (bytes: oid)

text \<open>
  The three document types, over the representation \<open>'i\<close> of an identifier: \<open>oid\<close> for
  a document at rest in a collection, \<open>ObjectId\<close> for a document held by a resolver.
  The text fields that \<open>$set\<close> may overwrite with an absent input (\<open>content?\<close>, \<open>text?\<close>)
  are optional: \<open>None\<close> is the null the driver writes for \<open>undefined\<close>.
\<close>

record 'i UserModel =
  user_id :: 'i
  user_name :: string
  user_password :: string
  user_email :: string
  user_posts :: "'i list"
  user_comments :: "'i list"
  user_likedPosts :: "'i list"

record 'i PostModel =
  post_id :: 'i
  post_content :: "string option"
  post_author :: 'i
  post_comments :: "'i list"
  post_likes :: "'i list"

record 'i CommentModel =
  comment_id :: 'i
  comment_text :: "string option"
  comment_author :: 'i
  comment_post :: 'i

section \<open>Runtime: context, heap, errors\<close>

text \<open>
  The three collections of the context, in store order, with the two generators the
  resolvers draw from: the identifier the driver gives to the next inserted document, and
  the address of the next allocated object.  \<open>rng\<close> counts the draws from the random source
  of the password hasher.
\<close>

record world =
  UserCollection :: "oid UserModel list"
  PostCollection :: "oid PostModel list"
  CommentCollection :: "oid CommentModel list"
  nextInsertedId :: oid
  nextAddr :: nat
  rng :: nat

text \<open>
  The messages of the \<open>GraphQLError\<close>s thrown by the resolvers:
  \<^item> \<open>EmailYaRegistrado\<close>: "El email ya esta registrado";
  \<^item> \<open>EmailRegistradoPorOtro\<close>: "El email ya esta registrado por otro usuario";
  \<^item> \<open>AutorNoExiste\<close>: "El autor no existe";
  \<^item> \<open>PublicacionNoExiste\<close>: "La publicacion no existe";
  \<^item> \<open>YaHaDadoLike\<close>: "El usuario ya ha dado like a esta publicacion";
  \<^item> \<open>NoHaDadoLike\<close>: "El usuario no ha dado like a esta publicacion";
  \<^item> \<open>PostNoExiste\<close>: "El post no existe";
  \<^item> \<open>ComentarioNoExiste\<close>: "El comentario no existe".
  \<open>BSONError\<close> is the error of the \<open>ObjectId\<close> constructor on a malformed string.
\<close>

datatype message =
    EmailYaRegistrado
  | EmailRegistradoPorOtro
  | AutorNoExiste
  | PublicacionNoExiste
  | YaHaDadoLike
  | NoHaDadoLike
  | PostNoExiste
  | ComentarioNoExiste

datatype error = GraphQLError message | BSONError

text \<open>An asynchronous computation: it runs in a world and ends with a value or a thrown error.\<close>

type_synonym 'a io = "world \<Rightarrow> (error + 'a) \<times> world"

definition return :: "'a \<Rightarrow> 'a io" where
  "return x w = (Inr x, w)"

definition throw :: "error \<Rightarrow> 'a io" where
  "throw e w = (Inl e, w)"

definition await :: "'a io \<Rightarrow> ('a \<Rightarrow> 'b io) \<Rightarrow> 'b io" where
  "await m f w = (case m w of (Inl e, w1) \<Rightarrow> (Inl e, w1) | (Inr x, w1) \<Rightarrow> f x w1)"

section \<open>The ObjectId of the driver\<close>

definition hexval :: "char \<Rightarrow> nat option" where
  "hexval c =
     (let n = (of_char c :: nat) in
      if 48 \<le> n \<and> n \<le> 57 then Some (n - 48)
      else if 97 \<le> n \<and> n \<le> 102 then Some (n - 87)
      else if 65 \<le> n \<and> n \<le> 70 then Some (n - 55)
      else None)"

fun fromHex :: "string \<Rightarrow> nat \<Rightarrow> nat option" where
  "fromHex [] acc = Some acc"
| "fromHex (c # cs) acc =
     (case hexval c of None \<Rightarrow> None | Some d \<Rightarrow> fromHex cs (16 * acc + d))"

text \<open>
  The constructor belongs to the driver.  It accepts a string of 24 hexadecimal digits,
  of either case, and throws on any other string.
\<close>

definition createFromHexString :: "string \<Rightarrow> oid option" where
  "createFromHexString s = (if length s = 24 then fromHex s 0 else None)"

definition new_ObjectId :: "string \<Rightarrow> ObjectId io" where
  "new_ObjectId s w =
     (case createFromHexString s of
        None \<Rightarrow> (Inl BSONError, w)
      | Some v \<Rightarrow> (Inr (ObjectId (nextAddr w) v), w\<lparr>nextAddr := Suc (nextAddr w)\<rparr>))"

text \<open>\<open>a !== b\<close> and \<open>xs.includes(x)\<close> on objects: by identity.\<close>

definition strict_neq :: "ObjectId \<Rightarrow> ObjectId \<Rightarrow> bool" where
  "strict_neq a b = (addr a \<noteq> addr b)"

definition Array_includes :: "ObjectId list \<Rightarrow> ObjectId \<Rightarrow> bool" where
  "Array_includes xs x = list_ex (\<lambda>y. addr y = addr x) xs"

section \<open>Documents between the store and the resolvers\<close>

text \<open>
  The driver builds every document it returns from the bytes the store sent: reading a
  document allocates a new object for each identifier in it.
\<close>

definition fromBSON_id :: "oid \<Rightarrow> ObjectId io" where
  "fromBSON_id v w = (Inr (ObjectId (nextAddr w) v), w\<lparr>nextAddr := Suc (nextAddr w)\<rparr>)"

definition fromBSON_ids :: "oid list \<Rightarrow> ObjectId list io" where
  "fromBSON_ids vs w =
     (Inr (map2 ObjectId [nextAddr w ..< nextAddr w + length vs] vs),
      w\<lparr>nextAddr := nextAddr w + length vs\<rparr>)"

definition fromBSON_user :: "oid UserModel \<Rightarrow> ObjectId UserModel io" where
  "fromBSON_user d =
     await (fromBSON_id (user_id d)) (\<lambda>i.
     await (fromBSON_ids (user_posts d)) (\<lambda>ps.
     await (fromBSON_ids (user_comments d)) (\<lambda>cs.
     await (fromBSON_ids (user_likedPosts d)) (\<lambda>ls.
     return \<lparr>user_id = i, user_name = user_name d, user_password = user_password d,
             user_email = user_email d, user_posts = ps, user_comments = cs,
             user_likedPosts = ls\<rparr>))))"

definition fromBSON_post :: "oid PostModel \<Rightarrow> ObjectId PostModel io" where
  "fromBSON_post d =
     await (fromBSON_id (post_id d)) (\<lambda>i.
     await (fromBSON_id (post_author d)) (\<lambda>a.
     await (fromBSON_ids (post_comments d)) (\<lambda>cs.
     await (fromBSON_ids (post_likes d)) (\<lambda>ls.
     return \<lparr>post_id = i, post_content = post_content d, post_author = a,
             post_comments = cs, post_likes = ls\<rparr>))))"

definition fromBSON_comment :: "oid CommentModel \<Rightarrow> ObjectId CommentModel io" where
  "fromBSON_comment d =
     await (fromBSON_id (comment_id d)) (\<lambda>i.
     await (fromBSON_id (comment_author d)) (\<lambda>a.
     await (fromBSON_id (comment_post d)) (\<lambda>p.
     return \<lparr>comment_id = i, comment_text = comment_text d, comment_author = a,
             comment_post = p\<rparr>)))"

text \<open>Writing a document to the store keeps the content of each identifier.\<close>

definition toBSON_user :: "ObjectId UserModel \<Rightarrow> oid UserModel" where
  "toBSON_user u =
     \<lparr>user_id = bytes (user_id u), user_name = user_name u, user_password = user_password u,
      user_email = user_email u, user_posts = map bytes (user_posts u),
      user_comments = map bytes (user_comments u),
      user_likedPosts = map bytes (user_likedPosts u)\<rparr>"

definition toBSON_post :: "ObjectId PostModel \<Rightarrow> oid PostModel" where
  "toBSON_post p =
     \<lparr>post_id = bytes (post_id p), post_content = post_content p,
      post_author = bytes (post_author p), post_comments = map bytes (post_comments p),
      post_likes = map bytes (post_likes p)\<rparr>"

definition toBSON_comment :: "ObjectId CommentModel \<Rightarrow> oid CommentModel" where
  "toBSON_comment c =
     \<lparr>comment_id = bytes (comment_id c), comment_text = comment_text c,
      comment_author = bytes (comment_author c), comment_post = bytes (comment_post c)\<rparr>"

section \<open>The operations of a collection\<close>

text \<open>
  A collection handle of the context: how to read its documents in the world, how to
  replace them, and how a document of it reaches the resolver.
\<close>

record ('d, 'j) Collection =
  docs :: "world \<Rightarrow> 'd list"
  modify :: "('d list \<Rightarrow> 'd list) \<Rightarrow> world \<Rightarrow> world"
  fromBSON :: "'d \<Rightarrow> 'j io"

definition Users :: "(oid UserModel, ObjectId UserModel) Collection" where
  "Users = \<lparr>docs = UserCollection, modify = UserCollection_update,
            fromBSON = fromBSON_user\<rparr>"

definition Posts :: "(oid PostModel, ObjectId PostModel) Collection" where
  "Posts = \<lparr>docs = PostCollection, modify = PostCollection_update,
            fromBSON = fromBSON_post\<rparr>"

definition Comments :: "(oid CommentModel, ObjectId CommentModel) Collection" where
  "Comments = \<lparr>docs = CommentCollection, modify = CommentCollection_update,
               fromBSON = fromBSON_comment\<rparr>"

fun mapM :: "('a \<Rightarrow> 'b io) \<Rightarrow> 'a list \<Rightarrow> 'b list io" where
  "mapM f [] w = (Inr [], w)"
| "mapM f (x # xs) w =
     (case f x w of
        (Inl e, w1) \<Rightarrow> (Inl e, w1)
      | (Inr y, w1) \<Rightarrow>
          (case mapM f xs w1 of
             (Inl e, w2) \<Rightarrow> (Inl e, w2)
           | (Inr ys, w2) \<Rightarrow> (Inr (y # ys), w2)))"

fun updateFirst :: "('a \<Rightarrow> bool) \<Rightarrow> ('a \<Rightarrow> 'a) \<Rightarrow> 'a list \<Rightarrow> 'a list" where
  "updateFirst p f [] = []"
| "updateFirst p f (x # xs) = (if p x then f x # xs else x # updateFirst p f xs)"

fun deleteFirst :: "('a \<Rightarrow> bool) \<Rightarrow> 'a list \<Rightarrow> 'a list" where
  "deleteFirst p [] = []"
| "deleteFirst p (x # xs) = (if p x then xs else x # deleteFirst p xs)"

text \<open>\<open>find(filter).toArray()\<close>: every matching document, in store order.\<close>

definition find_toArray :: "('d, 'j) Collection \<Rightarrow> ('d \<Rightarrow> bool) \<Rightarrow> 'j list io" where
  "find_toArray c p w = mapM (fromBSON c) (filter p (docs c w)) w"

text \<open>\<open>findOne(filter)\<close>: the first matching document, or null.\<close>

definition findOne :: "('d, 'j) Collection \<Rightarrow> ('d \<Rightarrow> bool) \<Rightarrow> 'j option io" where
  "findOne c p w =
     (case find p (docs c w) of
        None \<Rightarrow> (Inr None, w)
      | Some d \<Rightarrow> await (fromBSON c d) (\<lambda>j. return (Some j)) w)"

text \<open>
  \<open>insertOne(doc)\<close>: the driver gives the document the next identifier, appends it to the
  collection and returns the identifier as \<open>insertedId\<close>.
\<close>

definition insertOne :: "('d, 'j) Collection \<Rightarrow> (oid \<Rightarrow> 'd) \<Rightarrow> ObjectId io" where
  "insertOne c doc w =
     (let v = nextInsertedId w;
          w1 = modify c (\<lambda>ds. ds @ [doc v]) w
      in (Inr (ObjectId (nextAddr w1) v),
          w1\<lparr>nextInsertedId := Suc v, nextAddr := Suc (nextAddr w1)\<rparr>))"

text \<open>\<open>updateOne(filter, update)\<close>: applies the update to the first matching document.\<close>

definition updateOne :: "('d, 'j) Collection \<Rightarrow> ('d \<Rightarrow> bool) \<Rightarrow> ('d \<Rightarrow> 'd) \<Rightarrow> unit io" where
  "updateOne c p f w = (Inr (), modify c (updateFirst p f) w)"

text \<open>
  \<open>findOneAndUpdate(filter, update)\<close> with the driver's defaults: applies the update to
  the first matching document and returns the document as it was before, or null.
\<close>

definition findOneAndUpdate ::
  "('d, 'j) Collection \<Rightarrow> ('d \<Rightarrow> bool) \<Rightarrow> ('d \<Rightarrow> 'd) \<Rightarrow> 'j option io" where
  "findOneAndUpdate c p f w =
     (case find p (docs c w) of
        None \<Rightarrow> (Inr None, w)
      | Some d \<Rightarrow>
          await (fromBSON c d) (\<lambda>j. return (Some j)) (modify c (updateFirst p f) w))"

text \<open>\<open>deleteOne(filter)\<close>: removes the first matching document; returns \<open>deletedCount\<close>.\<close>

definition deleteOne :: "('d, 'j) Collection \<Rightarrow> ('d \<Rightarrow> bool) \<Rightarrow> nat io" where
  "deleteOne c p w =
     (Inr (if find p (docs c w) = None then 0 else 1), modify c (deleteFirst p) w)"

section \<open>The password hasher\<close>

text \<open>
  The hasher is a library outside the repository; the resolvers are modelled for any
  \<open>genSalt\<close> (from the cost factor and the state of the random source) and any \<open>hash\<close>
  (from the plaintext and the salt).
\<close>

record bcrypt =
  genSalt :: "nat \<Rightarrow> nat \<Rightarrow> string"
  hash :: "string \<Rightarrow> string \<Rightarrow> string"

definition bcrypt_genSalt :: "bcrypt \<Rightarrow> nat \<Rightarrow> string io" where
  "bcrypt_genSalt B cost w = (Inr (genSalt B cost (rng w)), w\<lparr>rng := Suc (rng w)\<rparr>)"

definition bcrypt_hash :: "bcrypt \<Rightarrow> string \<Rightarrow> string \<Rightarrow> string io" where
  "bcrypt_hash B plain salt = return (hash B plain salt)"

section \<open>Query resolvers\<close>

definition Query_users :: "ObjectId UserModel list io" where
  "Query_users = find_toArray Users (\<lambda>d. True)"

definition Query_user :: "string \<Rightarrow> ObjectId UserModel option io" where
  "Query_user id' =
     await (new_ObjectId id') (\<lambda>userId.
     findOne Users (\<lambda>d. user_id d = bytes userId))"

definition Query_posts :: "ObjectId PostModel list io" where
  "Query_posts = find_toArray Posts (\<lambda>d. True)"

definition Query_post :: "string \<Rightarrow> ObjectId PostModel option io" where
  "Query_post id' =
     await (new_ObjectId id') (\<lambda>postId.
     findOne Posts (\<lambda>d. post_id d = bytes postId))"

definition Query_comments :: "ObjectId CommentModel list io" where
  "Query_comments = find_toArray Comments (\<lambda>d. True)"

definition Query_comment :: "string \<Rightarrow> ObjectId CommentModel option io" where
  "Query_comment id' =
     await (new_ObjectId id') (\<lambda>commentId.
     findOne Comments (\<lambda>d. comment_id d = bytes commentId))"

section \<open>Mutation resolvers\<close>

definition createUser :: "bcrypt \<Rightarrow> string \<Rightarrow> string \<Rightarrow> string \<Rightarrow> ObjectId UserModel io" where
  "createUser B name email password =
     await (findOne Users (\<lambda>d. user_email d = email)) (\<lambda>existingUser.
     if existingUser \<noteq> None then throw (GraphQLError EmailYaRegistrado)
     else
     await (bcrypt_genSalt B 8) (\<lambda>salt.
     await (bcrypt_hash B password salt) (\<lambda>hashedPassword.
     await (insertOne Users (\<lambda>v.
              \<lparr>user_id = v, user_name = name, user_password = hashedPassword,
               user_email = email, user_posts = [], user_comments = [],
               user_likedPosts = []\<rparr>)) (\<lambda>insertedId.
     return \<lparr>user_id = insertedId, user_name = name, user_password = hashedPassword,
             user_email = email, user_posts = [], user_comments = [],
             user_likedPosts = []\<rparr>))))"

text \<open>
  \<open>if (email)\<close> holds for a non-empty string.  The guard of the throw is
  \<open>existeEmail && existeEmail._id !== userId\<close>, on two objects.
\<close>

definition updateUser ::
  "bcrypt \<Rightarrow> string \<Rightarrow> string \<Rightarrow> string \<Rightarrow> string \<Rightarrow> ObjectId UserModel option io" where
  "updateUser B id' name email password =
     await (new_ObjectId id') (\<lambda>userId.
     await (if email \<noteq> [] then
              await (findOne Users (\<lambda>d. user_email d = email)) (\<lambda>existeEmail.
              case existeEmail of
                None \<Rightarrow> return ()
              | Some u \<Rightarrow>
                  if strict_neq (user_id u) userId
                  then throw (GraphQLError EmailRegistradoPorOtro)
                  else return ())
            else return ()) (\<lambda>_.
     await (bcrypt_genSalt B 8) (\<lambda>salt.
     await (bcrypt_hash B password salt) (\<lambda>hashed.
     findOneAndUpdate Users (\<lambda>d. user_id d = bytes userId)
       (\<lambda>d. d\<lparr>user_name := name, user_email := email, user_password := hashed\<rparr>)))))"

definition deleteUser :: "string \<Rightarrow> bool io" where
  "deleteUser id' =
     await (new_ObjectId id') (\<lambda>userId.
     await (deleteOne Users (\<lambda>d. user_id d = bytes userId)) (\<lambda>deletedCount.
     return (deletedCount = 1)))"

definition createPost :: "string \<Rightarrow> string \<Rightarrow> ObjectId PostModel io" where
  "createPost content authorId =
     await (new_ObjectId authorId) (\<lambda>a0.
     await (findOne Users (\<lambda>d. user_id d = bytes a0)) (\<lambda>author.
     if author = None then throw (GraphQLError AutorNoExiste)
     else
     await (new_ObjectId authorId) (\<lambda>a1.
     await (insertOne Posts (\<lambda>v.
              \<lparr>post_id = v, post_content = Some content, post_author = bytes a1,
               post_comments = [], post_likes = []\<rparr>)) (\<lambda>insertedId.
     await (new_ObjectId authorId) (\<lambda>a2.
     return \<lparr>post_id = insertedId, post_content = Some content, post_author = a2,
             post_comments = [], post_likes = []\<rparr>)))))"

definition updatePost :: "string \<Rightarrow> string option \<Rightarrow> ObjectId PostModel option io" where
  "updatePost id' content =
     await (new_ObjectId id') (\<lambda>postId.
     findOneAndUpdate Posts (\<lambda>d. post_id d = bytes postId)
       (\<lambda>d. d\<lparr>post_content := content\<rparr>))"

definition deletePost :: "string \<Rightarrow> bool io" where
  "deletePost id' =
     await (new_ObjectId id') (\<lambda>postId.
     await (deleteOne Posts (\<lambda>d. post_id d = bytes postId)) (\<lambda>deletedCount.
     return (deletedCount = 1)))"

definition addLikeToPost :: "string \<Rightarrow> string \<Rightarrow> ObjectId PostModel option io" where
  "addLikeToPost postId userId =
     await (new_ObjectId postId) (\<lambda>p0.
     await (findOne Posts (\<lambda>d. post_id d = bytes p0)) (\<lambda>found.
     case found of
       None \<Rightarrow> throw (GraphQLError PublicacionNoExiste)
     | Some post \<Rightarrow>
     await (new_ObjectId userId) (\<lambda>u0.
     if Array_includes (post_likes post) u0 then throw (GraphQLError YaHaDadoLike)
     else
     await (new_ObjectId postId) (\<lambda>p1.
     await (new_ObjectId userId) (\<lambda>u1.
     await (updateOne Posts (\<lambda>d. post_id d = bytes p1)
              (\<lambda>d. d\<lparr>post_likes := post_likes d @ [bytes u1]\<rparr>)) (\<lambda>_.
     await (new_ObjectId postId) (\<lambda>p2.
     findOne Posts (\<lambda>d. post_id d = bytes p2))))))))"

definition removeLikeFromPost :: "string \<Rightarrow> string \<Rightarrow> ObjectId PostModel option io" where
  "removeLikeFromPost postId userId =
     await (new_ObjectId postId) (\<lambda>p0.
     await (findOne Posts (\<lambda>d. post_id d = bytes p0)) (\<lambda>found.
     case found of
       None \<Rightarrow> throw (GraphQLError PublicacionNoExiste)
     | Some post \<Rightarrow>
     await (new_ObjectId userId) (\<lambda>u0.
     if \<not> Array_includes (post_likes post) u0 then throw (GraphQLError NoHaDadoLike)
     else
     await (new_ObjectId postId) (\<lambda>p1.
     await (new_ObjectId userId) (\<lambda>u1.
     await (updateOne Posts (\<lambda>d. post_id d = bytes p1)
              (\<lambda>d. d\<lparr>post_likes := removeAll (bytes u1) (post_likes d)\<rparr>)) (\<lambda>_.
     await (new_ObjectId postId) (\<lambda>p2.
     findOne Posts (\<lambda>d. post_id d = bytes p2))))))))"

definition createComment :: "string \<Rightarrow> string \<Rightarrow> string \<Rightarrow> ObjectId CommentModel io" where
  "createComment text authorId postId =
     await (new_ObjectId authorId) (\<lambda>a0.
     await (findOne Users (\<lambda>d. user_id d = bytes a0)) (\<lambda>author.
     if author = None then throw (GraphQLError AutorNoExiste)
     else
     await (new_ObjectId postId) (\<lambda>p0.
     await (findOne Posts (\<lambda>d. post_id d = bytes p0)) (\<lambda>post.
     if post = None then throw (GraphQLError PostNoExiste)
     else
     await (new_ObjectId authorId) (\<lambda>a1.
     await (new_ObjectId postId) (\<lambda>p1.
     await (insertOne Comments (\<lambda>v.
              \<lparr>comment_id = v, comment_text = Some text, comment_author = bytes a1,
               comment_post = bytes p1\<rparr>)) (\<lambda>insertedId.
     await (new_ObjectId postId) (\<lambda>p2.
     await (updateOne Posts (\<lambda>d. post_id d = bytes p2)
              (\<lambda>d. d\<lparr>post_comments := post_comments d @ [bytes insertedId]\<rparr>)) (\<lambda>_.
     await (new_ObjectId authorId) (\<lambda>a2.
     await (new_ObjectId postId) (\<lambda>p3.
     return \<lparr>comment_id = insertedId, comment_text = Some text, comment_author = a2,
             comment_post = p3\<rparr>)))))))))))"

definition updateComment :: "string \<Rightarrow> string option \<Rightarrow> ObjectId CommentModel option io" where
  "updateComment id' text =
     await (new_ObjectId id') (\<lambda>commentId.
     findOneAndUpdate Comments (\<lambda>d. comment_id d = bytes commentId)
       (\<lambda>d. d\<lparr>comment_text := text\<rparr>))"

text \<open>The end of \<open>deleteComment\<close>, from the \<open>deletedCount\<close> that \<open>deleteOne\<close> reported.\<close>

definition deleteComment_finish :: "ObjectId \<Rightarrow> ObjectId CommentModel \<Rightarrow> nat \<Rightarrow> bool io" where
  "deleteComment_finish commentId comment deletedCount =
     (if deletedCount = 1 then
        await (updateOne Posts (\<lambda>d. post_id d = bytes (comment_post comment))
                 (\<lambda>d. d\<lparr>post_comments := removeAll (bytes commentId) (post_comments d)\<rparr>)) (\<lambda>_.
        return True)
      else return False)"

definition deleteComment :: "string \<Rightarrow> bool io" where
  "deleteComment id' =
     await (new_ObjectId id') (\<lambda>commentId.
     await (findOne Comments (\<lambda>d. comment_id d = bytes commentId)) (\<lambda>found.
     case found of
       None \<Rightarrow> throw (GraphQLError ComentarioNoExiste)
     | Some comment \<Rightarrow>
     await (deleteOne Comments (\<lambda>d. comment_id d = bytes commentId)) (\<lambda>deletedCount.
     deleteComment_finish commentId comment deletedCount)))"

section \<open>Field resolvers\<close>

definition User_posts :: "ObjectId UserModel \<Rightarrow> ObjectId PostModel list io" where
  "User_posts parent = find_toArray Posts (\<lambda>d. post_author d = bytes (user_id parent))"

definition User_comments :: "ObjectId UserModel \<Rightarrow> ObjectId CommentModel list io" where
  "User_comments parent =
     find_toArray Comments (\<lambda>d. comment_author d = bytes (user_id parent))"

definition User_likedPosts :: "ObjectId UserModel \<Rightarrow> ObjectId PostModel list io" where
  "User_likedPosts parent =
     find_toArray Posts (\<lambda>d. bytes (user_id parent) \<in> set (post_likes d))"

definition Post_author :: "ObjectId PostModel \<Rightarrow> ObjectId UserModel option io" where
  "Post_author parent = findOne Users (\<lambda>d. user_id d = bytes (post_author parent))"

definition Post_comments :: "ObjectId PostModel \<Rightarrow> ObjectId CommentModel list io" where
  "Post_comments parent = find_toArray Comments (\<lambda>d. comment_post d = bytes (post_id parent))"

definition Post_likes :: "ObjectId PostModel \<Rightarrow> ObjectId UserModel list io" where
  "Post_likes parent =
     find_toArray Users (\<lambda>d. user_id d \<in> set (map bytes (post_likes parent)))"

definition Comment_author :: "ObjectId CommentModel \<Rightarrow> ObjectId UserModel option io" where
  "Comment_author parent = findOne Users (\<lambda>d. user_id d = bytes (comment_author parent))"

definition Comment_post :: "ObjectId CommentModel \<Rightarrow> ObjectId PostModel option io" where
  "Comment_post parent = findOne Posts (\<lambda>d. post_id d = bytes (comment_post parent))"

section \<open>The API surface of mutations\<close>

datatype mutation =
    CreateUser string string string
  | UpdateUser string string string string
  | DeleteUser string
  | CreatePost string string
  | UpdatePost string "string option"
  | DeletePost string
  | AddLikeToPost string string
  | RemoveLikeFromPost string string
  | CreateComment string string string
  | UpdateComment string "string option"
  | DeleteComment string

text \<open>The world after a mutation, whether it returned or threw.\<close>

fun exec :: "bcrypt \<Rightarrow> mutation \<Rightarrow> world \<Rightarrow> world" where
  "exec B (CreateUser name email password) w = snd (createUser B name email password w)"
| "exec B (UpdateUser id' name email password) w = snd (updateUser B id' name email password w)"
| "exec B (DeleteUser id') w = snd (deleteUser id' w)"
| "exec B (CreatePost content authorId) w = snd (createPost content authorId w)"
| "exec B (UpdatePost id' content) w = snd (updatePost id' content w)"
| "exec B (DeletePost id') w = snd (deletePost id' w)"
| "exec B (AddLikeToPost postId userId) w = snd (addLikeToPost postId userId w)"
| "exec B (RemoveLikeFromPost postId userId) w = snd (removeLikeFromPost postId userId w)"
| "exec B (CreateComment text authorId postId) w = snd (createComment text authorId postId w)"
| "exec B (UpdateComment id' text) w = snd (updateComment id' text w)"
| "exec B (DeleteComment id') w = snd (deleteComment id' w)"

section \<open>Vocabulary of the properties\<close>

text \<open>The objects that reading a document allocates, from the address \<open>a\<close> on.\<close>

definition ids_at :: "nat \<Rightarrow> oid list \<Rightarrow> ObjectId list" where
  "ids_at a vs = map2 ObjectId [a ..< a + length vs] vs"

definition user_at :: "nat \<Rightarrow> oid UserModel \<Rightarrow> ObjectId UserModel" where
  "user_at a d =
     \<lparr>user_id = ObjectId a (user_id d), user_name = user_name d,
      user_password = user_password d, user_email = user_email d,
      user_posts = ids_at (Suc a) (user_posts d),
      user_comments = ids_at (Suc a + length (user_posts d)) (user_comments d),
      user_likedPosts =
        ids_at (Suc a + length (user_posts d) + length (user_comments d)) (user_likedPosts d)\<rparr>"

definition user_size :: "oid UserModel \<Rightarrow> nat" where
  "user_size d =
     Suc (length (user_posts d) + length (user_comments d) + length (user_likedPosts d))"

definition post_at :: "nat \<Rightarrow> oid PostModel \<Rightarrow> ObjectId PostModel" where
  "post_at a d =
     \<lparr>post_id = ObjectId a (post_id d), post_content = post_content d,
      post_author = ObjectId (Suc a) (post_author d),
      post_comments = ids_at (Suc (Suc a)) (post_comments d),
      post_likes = ids_at (Suc (Suc a) + length (post_comments d)) (post_likes d)\<rparr>"

definition post_size :: "oid PostModel \<Rightarrow> nat" where
  "post_size d = Suc (Suc (length (post_comments d) + length (post_likes d)))"

definition comment_at :: "nat \<Rightarrow> oid CommentModel \<Rightarrow> ObjectId CommentModel" where
  "comment_at a d =
     \<lparr>comment_id = ObjectId a (comment_id d), comment_text = comment_text d,
      comment_author = ObjectId (Suc a) (comment_author d),
      comment_post = ObjectId (Suc (Suc a)) (comment_post d)\<rparr>"

text \<open>
  The invariant of the store: within a collection no two documents share an identifier,
  and every identifier is one the driver has already given out.
\<close>

definition ids_ok :: "('d \<Rightarrow> oid) \<Rightarrow> oid \<Rightarrow> 'd list \<Rightarrow> bool" where
  "ids_ok f n ds \<longleftrightarrow> distinct (map f ds) \<and> list_all (\<lambda>d. f d < n) ds"

definition wf_world :: "world \<Rightarrow> bool" where
  "wf_world w \<longleftrightarrow>
     ids_ok user_id (nextInsertedId w) (UserCollection w) \<and>
     ids_ok post_id (nextInsertedId w) (PostCollection w) \<and>
     ids_ok comment_id (nextInsertedId w) (CommentCollection w)"

definition empty_world :: world where
  "empty_world =
     \<lparr>UserCollection = [], PostCollection = [], CommentCollection = [],
      nextInsertedId = 0, nextAddr = 0, rng = 0\<rparr>"

text \<open>The three reference arrays of a user document.\<close>

definition user_refs :: "'i UserModel \<Rightarrow> 'i list \<times> 'i list \<times> 'i list" where
  "user_refs d = (user_posts d, user_comments d, user_likedPosts d)"

text \<open>
  Every user document of \<open>w'\<close> either has the identifier and the reference arrays of a
  user document of \<open>w\<close>, or is new (it has the identifier generated next in \<open>w\<close>) and has
  three empty reference arrays.
\<close>

definition refs_untouched :: "world \<Rightarrow> world \<Rightarrow> bool" where
  "refs_untouched w w' =
     list_all (\<lambda>d'. list_ex (\<lambda>d. user_id d = user_id d' \<and> user_refs d = user_refs d')
                   (UserCollection w) \<or>
                 user_id d' = nextInsertedId w \<and> user_refs d' = ([], [], []))
       (UserCollection w')"

section \<open>A small store\<close>

text \<open>
  A stand-in hasher for the examples: the salt is a prefix and the draw number, the
  digest is the salt followed by the reversed plaintext.
\<close>

definition demo_bcrypt :: bcrypt where
  "demo_bcrypt =
     \<lparr>genSalt = (\<lambda>cost n. ''$2a$'' @ replicate cost (CHR ''s'') @ replicate n (CHR ''r'')),
      hash = (\<lambda>plain salt. salt @ rev plain)\<rparr>"

definition ana_id :: string where
  "ana_id = ''000000000000000000000001''"

definition hi_id :: string where
  "hi_id = ''000000000000000000000002''"

definition nice_id :: string where
  "nice_id = ''000000000000000000000003''"

definition new_id :: string where
  "new_id = ''000000000000000000000004''"

definition no_id :: string where
  "no_id = ''00000000000000000000000a''"

text \<open>One user, one post of hers, one comment of hers on it.\<close>

definition ana :: "oid UserModel" where
  "ana =
     \<lparr>user_id = 1, user_name = ''Ana'', user_password = ''$2a$ssssssssterces'',
      user_email = ''ana@x.com'', user_posts = [], user_comments = [],
      user_likedPosts = []\<rparr>"

definition hi :: "oid PostModel" where
  "hi =
     \<lparr>post_id = 2, post_content = Some ''hi'', post_author = 1, post_comments = [3],
      post_likes = []\<rparr>"

definition nice :: "oid CommentModel" where
  "nice =
     \<lparr>comment_id = 3, comment_text = Some ''nice'', comment_author = 1, comment_post = 2\<rparr>"

definition demo_world :: world where
  "demo_world =
     \<lparr>UserCollection = [ana], PostCollection = [hi], CommentCollection = [nice],
      nextInsertedId = 4, nextAddr = 0, rng = 1\<rparr>"

text \<open>The same store after Ana liked the post.\<close>

definition liked_world :: world where
  "liked_world =
     demo_world\<lparr>PostCollection := [hi\<lparr>post_likes := [1]\<rparr>]\<rparr>"

section \<open>Facts about the runtime and the store\<close>

lemma await_return [simp]: "await (return x) f = f x"
  by (rule ext) (simp add: await_def return_def)

lemma await_throw [simp]: "await (throw e) f = throw e"
  by (rule ext) (simp add: await_def throw_def)

lemma await_Inr: "m w = (Inr x, w1) \<Longrightarrow> await m f w = f x w1"
  by (simp add: await_def)

lemma await_Inl: "m w = (Inl e, w1) \<Longrightarrow> await m f w = (Inl e, w1)"
  by (simp add: await_def)

lemma bytes_ids_at [simp]: "map bytes (ids_at a vs) = vs"
  unfolding ids_at_def by (induction vs arbitrary: a rule: rev_induct) (simp_all add: zip_append1)

lemma fromBSON_ids_eq: "fromBSON_ids vs w = (Inr (ids_at (nextAddr w) vs), w\<lparr>nextAddr := nextAddr w + length vs\<rparr>)"
  by (simp add: fromBSON_ids_def ids_at_def)

lemma fromBSON_user_eq:
  "fromBSON_user d w = (Inr (user_at (nextAddr w) d), w\<lparr>nextAddr := nextAddr w + user_size d\<rparr>)"
  by (simp add: fromBSON_user_def fromBSON_id_def fromBSON_ids_eq await_def return_def user_at_def user_size_def add.assoc)

lemma fromBSON_post_eq:
  "fromBSON_post d w = (Inr (post_at (nextAddr w) d), w\<lparr>nextAddr := nextAddr w + post_size d\<rparr>)"
  by (simp add: fromBSON_post_def fromBSON_id_def fromBSON_ids_eq await_def return_def post_at_def post_size_def add.assoc)

lemma fromBSON_comment_eq:
  "fromBSON_comment d w = (Inr (comment_at (nextAddr w) d), w\<lparr>nextAddr := nextAddr w + 3\<rparr>)"
  by (simp add: fromBSON_comment_def fromBSON_id_def await_def return_def comment_at_def)


lemma addr_ids_at: "x \<in> set (ids_at a vs) \<Longrightarrow> a \<le> addr x \<and> addr x < a + length vs"
  by (auto simp: ids_at_def in_set_zip)

lemma not_includes_fresh:
  "a + post_size d \<le> b \<Longrightarrow> \<not> Array_includes (post_likes (post_at a d)) (ObjectId b v)"
  by (auto simp: Array_includes_def list_ex_iff post_at_def post_size_def dest!: addr_ids_at)

lemma findOne_Users:
  "findOne Users p w =
     (case find p (UserCollection w) of
        None \<Rightarrow> (Inr None, w)
      | Some d \<Rightarrow> (Inr (Some (user_at (nextAddr w) d)), w\<lparr>nextAddr := nextAddr w + user_size d\<rparr>))"
  by (simp add: findOne_def Users_def await_def return_def fromBSON_user_eq split: option.splits)

lemma findOne_Posts:
  "findOne Posts p w =
     (case find p (PostCollection w) of
        None \<Rightarrow> (Inr None, w)
      | Some d \<Rightarrow> (Inr (Some (post_at (nextAddr w) d)), w\<lparr>nextAddr := nextAddr w + post_size d\<rparr>))"
  by (simp add: findOne_def Posts_def await_def return_def fromBSON_post_eq split: option.splits)

lemma findOne_Comments:
  "findOne Comments p w =
     (case find p (CommentCollection w) of
        None \<Rightarrow> (Inr None, w)
      | Some d \<Rightarrow> (Inr (Some (comment_at (nextAddr w) d)), w\<lparr>nextAddr := nextAddr w + 3\<rparr>))"
  by (simp add: findOne_def Comments_def await_def return_def fromBSON_comment_eq split: option.splits)

lemma new_ObjectId_Some:
  "createFromHexString s = Some v \<Longrightarrow>
   new_ObjectId s w = (Inr (ObjectId (nextAddr w) v), w\<lparr>nextAddr := Suc (nextAddr w)\<rparr>)"
  by (simp add: new_ObjectId_def)

lemma new_ObjectId_None:
  "createFromHexString s = None \<Longrightarrow> new_ObjectId s w = (Inl BSONError, w)"
  by (simp add: new_ObjectId_def)


lemma updateOne_Posts:
  "updateOne Posts p f w = (Inr (), w\<lparr>PostCollection := updateFirst p f (PostCollection w)\<rparr>)"
  by (simp add: updateOne_def Posts_def)

lemma deleteOne_Users:
  "deleteOne Users p w =
     (Inr (if find p (UserCollection w) = None then 0 else 1),
      w\<lparr>UserCollection := deleteFirst p (UserCollection w)\<rparr>)"
  by (simp add: deleteOne_def Users_def)

lemma deleteOne_Posts:
  "deleteOne Posts p w =
     (Inr (if find p (PostCollection w) = None then 0 else 1),
      w\<lparr>PostCollection := deleteFirst p (PostCollection w)\<rparr>)"
  by (simp add: deleteOne_def Posts_def)

lemma deleteOne_Comments:
  "deleteOne Comments p w =
     (Inr (if find p (CommentCollection w) = None then 0 else 1),
      w\<lparr>CommentCollection := deleteFirst p (CommentCollection w)\<rparr>)"
  by (simp add: deleteOne_def Comments_def)

lemma insertOne_Users:
  "insertOne Users doc w =
     (Inr (ObjectId (nextAddr w) (nextInsertedId w)),
      w\<lparr>UserCollection := UserCollection w @ [doc (nextInsertedId w)],
        nextInsertedId := Suc (nextInsertedId w), nextAddr := Suc (nextAddr w)\<rparr>)"
  by (simp add: insertOne_def Users_def Let_def)

lemma insertOne_Posts:
  "insertOne Posts doc w =
     (Inr (ObjectId (nextAddr w) (nextInsertedId w)),
      w\<lparr>PostCollection := PostCollection w @ [doc (nextInsertedId w)],
        nextInsertedId := Suc (nextInsertedId w), nextAddr := Suc (nextAddr w)\<rparr>)"
  by (simp add: insertOne_def Posts_def Let_def)

lemma insertOne_Comments:
  "insertOne Comments doc w =
     (Inr (ObjectId (nextAddr w) (nextInsertedId w)),
      w\<lparr>CommentCollection := CommentCollection w @ [doc (nextInsertedId w)],
        nextInsertedId := Suc (nextInsertedId w), nextAddr := Suc (nextAddr w)\<rparr>)"
  by (simp add: insertOne_def Comments_def Let_def)

lemma findOneAndUpdate_Users:
  "findOneAndUpdate Users p f w =
     (case find p (UserCollection w) of
        None \<Rightarrow> (Inr None, w)
      | Some d \<Rightarrow>
          (Inr (Some (user_at (nextAddr w) d)),
           w\<lparr>UserCollection := updateFirst p f (UserCollection w),
             nextAddr := nextAddr w + user_size d\<rparr>))"
  by (simp add: findOneAndUpdate_def Users_def await_def return_def fromBSON_user_eq
      split: option.splits)

lemma findOneAndUpdate_Posts:
  "findOneAndUpdate Posts p f w =
     (case find p (PostCollection w) of
        None \<Rightarrow> (Inr None, w)
      | Some d \<Rightarrow>
          (Inr (Some (post_at (nextAddr w) d)),
           w\<lparr>PostCollection := updateFirst p f (PostCollection w),
             nextAddr := nextAddr w + post_size d\<rparr>))"
  by (simp add: findOneAndUpdate_def Posts_def await_def return_def fromBSON_post_eq
      split: option.splits)

lemma findOneAndUpdate_Comments:
  "findOneAndUpdate Comments p f w =
     (case find p (CommentCollection w) of
        None \<Rightarrow> (Inr None, w)
      | Some d \<Rightarrow>
          (Inr (Some (comment_at (nextAddr w) d)),
           w\<lparr>CommentCollection := updateFirst p f (CommentCollection w),
             nextAddr := nextAddr w + 3\<rparr>))"
  by (simp add: findOneAndUpdate_def Comments_def await_def return_def fromBSON_comment_eq
      split: option.splits)

lemmas store_ops = findOne_Users findOne_Posts findOne_Comments updateOne_Posts
  deleteOne_Users deleteOne_Posts deleteOne_Comments insertOne_Users insertOne_Posts
  insertOne_Comments findOneAndUpdate_Users findOneAndUpdate_Posts findOneAndUpdate_Comments

lemma addLikeToPost_never_duplicate:
  "fst (addLikeToPost postId userId w) \<noteq> Inl (GraphQLError YaHaDadoLike)"
proof (cases "createFromHexString postId")
  case None
  then show ?thesis by (simp add: addLikeToPost_def await_def new_ObjectId_None)
next
  case (Some p)
  show ?thesis
  proof (cases "find (\<lambda>d. post_id d = p) (PostCollection w)")
    case None
    with Some show ?thesis
      by (simp add: addLikeToPost_def await_def new_ObjectId_Some findOne_Posts throw_def)
  next
    case found: (Some d)
    show ?thesis
    proof (cases "createFromHexString userId")
      case None
      with Some found show ?thesis
        by (simp add: addLikeToPost_def await_def new_ObjectId_Some new_ObjectId_None findOne_Posts)
    next
      case u: (Some u)
      with Some found show ?thesis
        by (simp add: addLikeToPost_def await_def new_ObjectId_Some store_ops
            not_includes_fresh split: option.splits)
    qed
  qed
qed

lemma removeLikeFromPost_always_fails:
  assumes "createFromHexString postId = Some p" "createFromHexString userId = Some u"
    "find (\<lambda>d. post_id d = p) (PostCollection w) = Some d"
  shows "fst (removeLikeFromPost postId userId w) = Inl (GraphQLError NoHaDadoLike)"
    and "PostCollection (snd (removeLikeFromPost postId userId w)) = PostCollection w"
  using assms
  by (simp_all add: removeLikeFromPost_def await_def new_ObjectId_Some store_ops
            not_includes_fresh throw_def)

lemma updateUser_own_email:
  assumes "createFromHexString id' = Some v" "email \<noteq> []"
    "find (\<lambda>d. user_email d = email) (UserCollection w) = Some d"
  shows "updateUser B id' name email password w = (Inl (GraphQLError EmailRegistradoPorOtro), w\<lparr>nextAddr := Suc (nextAddr w) + user_size d\<rparr>)"
  using assms
  by (simp add: updateUser_def await_def new_ObjectId_Some store_ops strict_neq_def user_at_def throw_def)


lemma find_None_list_ex: "find p xs = None \<longleftrightarrow> \<not> list_ex p xs"
  by (induction xs) auto

lemma deleteFirst_none: "\<not> list_ex p xs \<Longrightarrow> deleteFirst p xs = xs"
  by (induction xs) auto

lemma length_deleteFirst: "list_ex p xs \<Longrightarrow> Suc (length (deleteFirst p xs)) = length xs"
  by (induction xs) auto

lemma set_deleteFirst: "set (deleteFirst p xs) \<subseteq> set xs"
  by (induction xs) auto

lemma distinct_deleteFirst: "distinct (map f xs) \<Longrightarrow> distinct (map f (deleteFirst p xs))"
proof (induction xs)
  case Nil
  then show ?case by simp
next
  case (Cons x xs)
  have "f x \<notin> f ` set (deleteFirst p xs)"
    using Cons.prems set_deleteFirst [of p xs] by auto
  with Cons show ?case by simp
qed

lemma deleteFirst_absent:
  "distinct (map f xs) \<Longrightarrow> \<not> list_ex (\<lambda>d. f d = v) (deleteFirst (\<lambda>d. f d = v) xs)"
proof (induction xs)
  case Nil
  then show ?case by simp
next
  case (Cons a xs)
  show ?case
  proof (cases "f a = v")
    case True
    from Cons.prems have "f a \<notin> f ` set xs" by simp
    with True have "\<forall>d \<in> set xs. f d \<noteq> v" by blast
    with True show ?thesis by (simp add: list_ex_iff)
  next
    case False
    with Cons show ?thesis by simp
  qed
qed

lemma map_updateFirst: "(\<And>x. f (g x) = f x) \<Longrightarrow> map f (updateFirst p g xs) = map f xs"
  by (induction xs) auto

lemma length_updateFirst [simp]: "length (updateFirst p g xs) = length xs"
  by (induction xs) auto

lemma updateFirst_none: "\<not> list_ex p xs \<Longrightarrow> updateFirst p g xs = xs"
  by (induction xs) auto

lemma find_updateFirst:
  "find (\<lambda>d. f d = v) xs = Some d \<Longrightarrow> (\<And>x. f (g x) = f x) \<Longrightarrow>
   find (\<lambda>d. f d = v) (updateFirst (\<lambda>d. f d = v) g xs) = Some (g d)"
  by (induction xs) (auto split: if_splits)

lemma updateFirst_distinct:
  "distinct (map f xs) \<Longrightarrow> (\<And>x. f (g x) = f x) \<Longrightarrow> x \<in> set (updateFirst (\<lambda>d. f d = v) g xs) \<Longrightarrow>
   f x = v \<Longrightarrow> x \<in> g ` set xs"
proof (induction xs)
  case Nil
  then show ?case by simp
next
  case (Cons a xs)
  show ?case
  proof (cases "f a = v")
    case True
    with Cons.prems show ?thesis by (auto simp: image_iff) 
  next
    case False
    with Cons show ?thesis by auto
  qed
qed

lemma toBSON_user_at [simp]: "toBSON_user (user_at a d) = d"
  by (simp add: toBSON_user_def user_at_def)

lemma toBSON_post_at [simp]: "toBSON_post (post_at a d) = d"
  by (simp add: toBSON_post_def post_at_def)

lemma toBSON_comment_at [simp]: "toBSON_comment (comment_at a d) = d"
  by (simp add: toBSON_comment_def comment_at_def)

lemma find_Some_list_ex: "find p xs = Some d \<Longrightarrow> list_ex p xs"
  using find_None_list_ex [of p xs] by simp

lemma list_ex_find: "list_ex p xs \<Longrightarrow> \<exists>d. find p xs = Some d"
  using find_None_list_ex [of p xs] by (cases "find p xs") simp_all

subsection \<open>The invariant of the store is kept by every mutation\<close>

lemma set_map_deleteFirst: "set (map f (deleteFirst p xs)) \<subseteq> set (map f xs)"
  using set_deleteFirst [of p xs] by auto

lemma ids_ok_updateFirst [simp]:
  "(\<And>x. f (g x) = f x) \<Longrightarrow> ids_ok f n (updateFirst p g ds) = ids_ok f n ds"
proof -
  assume g: "\<And>x. f (g x) = f x"
  have "list_all (\<lambda>d. f d < n) ds = (\<forall>i \<in> set (map f ds). i < n)" for ds :: "'a list"
    by (simp add: list_all_iff)
  then show ?thesis
    unfolding ids_ok_def by (simp only: map_updateFirst [of f g, OF g])
qed

lemma ids_ok_deleteFirst: "ids_ok f n ds \<Longrightarrow> ids_ok f n (deleteFirst p ds)"
  using set_deleteFirst [of p ds]
  by (auto simp: ids_ok_def distinct_deleteFirst list_all_iff)

lemma ids_ok_insert: "ids_ok f n ds \<Longrightarrow> f d = n \<Longrightarrow> ids_ok f (Suc n) (ds @ [d])"
  by (auto simp: ids_ok_def list_all_iff less_Suc_eq)

lemma ids_ok_Suc: "ids_ok f n ds \<Longrightarrow> ids_ok f (Suc n) ds"
  by (auto simp: ids_ok_def list_all_iff less_Suc_eq)

lemma wf_empty_world: "wf_world empty_world"
  by (simp add: wf_world_def ids_ok_def empty_world_def)

lemmas wf_steps = wf_world_def ids_ok_deleteFirst ids_ok_insert ids_ok_Suc

lemma wf_createUser: "wf_world w \<Longrightarrow> wf_world (snd (createUser B name email password w))"
  by (cases "find (\<lambda>d. user_email d = email) (UserCollection w)")
    (simp_all add: createUser_def await_def store_ops throw_def return_def bcrypt_genSalt_def
      bcrypt_hash_def wf_steps)

lemma wf_updateUser: "wf_world w \<Longrightarrow> wf_world (snd (updateUser B id' name email password w))"
  by (simp add: updateUser_def await_def new_ObjectId_def store_ops throw_def return_def
      bcrypt_genSalt_def bcrypt_hash_def wf_steps split: option.splits)

lemma wf_deleteUser: "wf_world w \<Longrightarrow> wf_world (snd (deleteUser id' w))"
  by (simp add: deleteUser_def await_def new_ObjectId_def store_ops return_def wf_steps
      split: option.splits)

lemma wf_createPost: "wf_world w \<Longrightarrow> wf_world (snd (createPost content authorId w))"
  by (simp add: createPost_def await_def new_ObjectId_def store_ops throw_def return_def
      wf_steps split: option.splits)

lemma wf_updatePost: "wf_world w \<Longrightarrow> wf_world (snd (updatePost id' content w))"
  by (simp add: updatePost_def await_def new_ObjectId_def store_ops wf_steps
      split: option.splits)

lemma wf_deletePost: "wf_world w \<Longrightarrow> wf_world (snd (deletePost id' w))"
  by (simp add: deletePost_def await_def new_ObjectId_def store_ops return_def wf_steps
      split: option.splits)

lemma wf_addLikeToPost: "wf_world w \<Longrightarrow> wf_world (snd (addLikeToPost postId userId w))"
  by (simp add: addLikeToPost_def await_def new_ObjectId_def store_ops throw_def wf_steps
      split: option.splits)

lemma wf_removeLikeFromPost: "wf_world w \<Longrightarrow> wf_world (snd (removeLikeFromPost postId userId w))"
  by (simp add: removeLikeFromPost_def await_def new_ObjectId_def store_ops throw_def wf_steps
      split: option.splits)

lemma wf_createComment: "wf_world w \<Longrightarrow> wf_world (snd (createComment text authorId postId w))"
  by (simp add: createComment_def await_def new_ObjectId_def store_ops throw_def return_def
      wf_steps split: option.splits)

lemma wf_updateComment: "wf_world w \<Longrightarrow> wf_world (snd (updateComment id' text w))"
  by (simp add: updateComment_def await_def new_ObjectId_def store_ops wf_steps
      split: option.splits)

lemma wf_deleteComment: "wf_world w \<Longrightarrow> wf_world (snd (deleteComment id' w))"
  by (simp add: deleteComment_def deleteComment_finish_def await_def new_ObjectId_def store_ops
      throw_def return_def wf_steps split: option.splits)

lemma wf_exec: "wf_world w \<Longrightarrow> wf_world (exec B m w)"
  by (cases m)
    (simp_all add: wf_createUser wf_updateUser wf_deleteUser wf_createPost wf_updatePost
      wf_deletePost wf_addLikeToPost wf_removeLikeFromPost wf_createComment wf_updateComment
      wf_deleteComment)

lemma wf_reachable: "wf_world (foldl (\<lambda>w m. exec B m w) empty_world ms)"
  by (induction ms rule: rev_induct) (simp_all add: wf_empty_world wf_exec)


lemma find_append_None: "find p xs = None \<Longrightarrow> find p (xs @ ys) = find p ys"
  by (induction xs) (auto split: if_splits)

lemma find_fresh:
  "ids_ok f n ds \<Longrightarrow> f x = n \<Longrightarrow> find (\<lambda>d. f d = n) (ds @ [x]) = Some x"
proof -
  assume a: "ids_ok f n ds" "f x = n"
  then have "\<not> list_ex (\<lambda>d. f d = n) ds"
    by (auto simp: ids_ok_def list_all_iff list_ex_iff)
  then have "find (\<lambda>d. f d = n) ds = None"
    by (simp add: find_None_list_ex)
  with a show ?thesis by (simp add: find_append_None)
qed

subsection \<open>The reference arrays of user documents\<close>

lemma set_updateFirst: "set (updateFirst p g xs) \<subseteq> set xs \<union> g ` set xs"
  by (induction xs) auto

lemma refs_untouched_same: "UserCollection w' = UserCollection w \<Longrightarrow> refs_untouched w w'"
  by (auto simp: refs_untouched_def list_all_iff list_ex_iff)

lemma refs_untouched_insert:
  "UserCollection w' = UserCollection w @ [d] \<Longrightarrow> user_id d = nextInsertedId w \<Longrightarrow>
   user_refs d = ([], [], []) \<Longrightarrow> refs_untouched w w'"
  by (auto simp: refs_untouched_def list_all_iff list_ex_iff)

lemma refs_untouched_delete:
  "UserCollection w' = deleteFirst p (UserCollection w) \<Longrightarrow> refs_untouched w w'"
  using set_deleteFirst [of p "UserCollection w"]
  by (auto simp: refs_untouched_def list_all_iff list_ex_iff)

lemma refs_untouched_update:
  assumes "UserCollection w' = updateFirst p g (UserCollection w)"
    and "\<And>x. user_id (g x) = user_id x" and "\<And>x. user_refs (g x) = user_refs x"
  shows "refs_untouched w w'"
  unfolding refs_untouched_def list_all_iff list_ex_iff
proof
  fix d' assume "d' \<in> set (UserCollection w')"
  then have "d' \<in> set (UserCollection w) \<union> g ` set (UserCollection w)"
    using assms(1) set_updateFirst [of p g "UserCollection w"] by auto
  then obtain d where "d \<in> set (UserCollection w)" "user_id d = user_id d'"
    "user_refs d = user_refs d'"
    using assms(2,3) by auto
  then show "(\<exists>d \<in> set (UserCollection w). user_id d = user_id d' \<and> user_refs d = user_refs d') \<or>
      user_id d' = nextInsertedId w \<and> user_refs d' = ([], [], [])"
    by blast
qed

lemma refs_createUser: "refs_untouched w (snd (createUser B name email password w))"
  by (cases "find (\<lambda>d. user_email d = email) (UserCollection w)")
    (simp_all add: createUser_def await_def store_ops throw_def return_def bcrypt_genSalt_def
      bcrypt_hash_def refs_untouched_same refs_untouched_insert user_refs_def)

lemma refs_updateUser: "refs_untouched w (snd (updateUser B id' name email password w))"
  by (simp add: updateUser_def await_def new_ObjectId_def store_ops throw_def return_def
      bcrypt_genSalt_def bcrypt_hash_def refs_untouched_same
      refs_untouched_update [where p = "\<lambda>d. user_id d = v" for v] user_refs_def
      split: option.splits)

lemma refs_deleteUser: "refs_untouched w (snd (deleteUser id' w))"
  by (simp add: deleteUser_def await_def new_ObjectId_def store_ops return_def
      refs_untouched_same refs_untouched_delete [where p = "\<lambda>d. user_id d = v" for v]
      split: option.splits)

lemma users_createPost: "UserCollection (snd (createPost content authorId w)) = UserCollection w"
  by (simp add: createPost_def await_def new_ObjectId_def store_ops throw_def return_def
      split: option.splits)

lemma users_updatePost: "UserCollection (snd (updatePost id' content w)) = UserCollection w"
  by (simp add: updatePost_def await_def new_ObjectId_def store_ops split: option.splits)

lemma users_deletePost: "UserCollection (snd (deletePost id' w)) = UserCollection w"
  by (simp add: deletePost_def await_def new_ObjectId_def store_ops return_def
      split: option.splits)

lemma users_addLikeToPost: "UserCollection (snd (addLikeToPost postId userId w)) = UserCollection w"
  by (simp add: addLikeToPost_def await_def new_ObjectId_def store_ops throw_def
      split: option.splits)

lemma users_removeLikeFromPost:
  "UserCollection (snd (removeLikeFromPost postId userId w)) = UserCollection w"
  by (simp add: removeLikeFromPost_def await_def new_ObjectId_def store_ops throw_def
      split: option.splits)

lemma users_createComment:
  "UserCollection (snd (createComment text authorId postId w)) = UserCollection w"
  by (simp add: createComment_def await_def new_ObjectId_def store_ops throw_def return_def
      split: option.splits)

lemma users_updateComment: "UserCollection (snd (updateComment id' text w)) = UserCollection w"
  by (simp add: updateComment_def await_def new_ObjectId_def store_ops split: option.splits)

lemma users_deleteComment: "UserCollection (snd (deleteComment id' w)) = UserCollection w"
  by (simp add: deleteComment_def deleteComment_finish_def await_def new_ObjectId_def store_ops
      throw_def return_def split: option.splits)

lemma refs_exec: "refs_untouched w (exec B m w)"
  by (cases m)
    (simp_all add: refs_createUser refs_updateUser refs_deleteUser refs_untouched_same
      users_createPost users_updatePost users_deletePost users_addLikeToPost
      users_removeLikeFromPost users_createComment users_updateComment users_deleteComment)

lemma refs_empty_step:
  "list_all (\<lambda>d. user_refs d = ([], [], [])) (UserCollection w) \<Longrightarrow> refs_untouched w w' \<Longrightarrow>
   list_all (\<lambda>d. user_refs d = ([], [], [])) (UserCollection w')"
  by (fastforce simp: refs_untouched_def list_all_iff list_ex_iff)

lemma refs_empty_reachable:
  "list_all (\<lambda>d. user_refs d = ([], [], []))
     (UserCollection (foldl (\<lambda>w m. exec B m w) empty_world ms))"
proof (induction ms rule: rev_induct)
  case Nil
  then show ?case by (simp add: empty_world_def)
next
  case (snoc m ms)
  then show ?case using refs_empty_step [OF snoc refs_exec] by simp
qed

lemma mapM_load:
  assumes "\<And>d w. f d w = (Inr (at (nextAddr w) d), w\<lparr>nextAddr := nextAddr w + sz d\<rparr>)"
    and "\<And>a d. g (at a d) = d"
  shows "\<exists>js a. mapM f ds w = (Inr js, w\<lparr>nextAddr := a\<rparr>) \<and> map g js = ds"
proof (induction ds arbitrary: w)
  case Nil
  have "w = w\<lparr>nextAddr := nextAddr w\<rparr>" by simp
  then show ?case by (metis mapM.simps(1) list.map(1))
next
  case (Cons d ds)
  obtain js a where
    "mapM f ds (w\<lparr>nextAddr := nextAddr w + sz d\<rparr>) =
       (Inr js, w\<lparr>nextAddr := nextAddr w + sz d, nextAddr := a\<rparr>)" "map g js = ds"
    using Cons [of "w\<lparr>nextAddr := nextAddr w + sz d\<rparr>"] by auto
  then show ?case by (simp add: assms(1) [of d w] assms(2)) (rule exI, rule refl)
qed

lemma find_toArray_Posts:
  "\<exists>js w'. find_toArray Posts p w = (Inr js, w') \<and> map toBSON_post js = filter p (PostCollection w)"
  using mapM_load [of fromBSON_post post_at post_size toBSON_post "filter p (PostCollection w)" w]
  by (auto simp: find_toArray_def Posts_def fromBSON_post_eq)

lemma find_toArray_Comments:
  "\<exists>js w'. find_toArray Comments p w = (Inr js, w') \<and>
     map toBSON_comment js = filter p (CommentCollection w)"
  using mapM_load [of fromBSON_comment comment_at "\<lambda>d. 3" toBSON_comment
      "filter p (CommentCollection w)" w]
  by (auto simp: find_toArray_def Comments_def fromBSON_comment_eq)

section \<open>Likes\<close>

text \<open>
  Claim C1.  The claim is that a second \<open>addLikeToPost\<close> with the same post and user fails
  with the duplicate-like error and leaves the like-set unchanged, so that the like-set
  holds each user at most once.  The resolver tests \<open>post.likes.includes(new ObjectId(userId))\<close>,
  which compares the new object with the objects of the document by identity and is never
  true (lemma \<open>addLikeToPost_never_duplicate\<close>).  In the store with one user and one post
  of hers without likes, the first call returns the post with like-set [1], the second call
  returns as well, and the stored like-set is then [1, 1].
\<close>

theorem addLikeToPost_twice:
  "fst (addLikeToPost hi_id ana_id demo_world) =
     Inr (Some \<lparr>post_id = ObjectId 8 2, post_content = Some ''hi'',
                post_author = ObjectId 9 1, post_comments = [ObjectId 10 3],
                post_likes = [ObjectId 11 1]\<rparr>) \<and>
   fst (addLikeToPost hi_id ana_id (snd (addLikeToPost hi_id ana_id demo_world))) =
     Inr (Some \<lparr>post_id = ObjectId 21 2, post_content = Some ''hi'',
                post_author = ObjectId 22 1, post_comments = [ObjectId 23 3],
                post_likes = [ObjectId 24 1, ObjectId 25 1]\<rparr>) \<and>
   map post_likes
     (PostCollection (snd (addLikeToPost hi_id ana_id (snd (addLikeToPost hi_id ana_id demo_world))))) =
     [[1, 1]]"
  by code_simp

text \<open>
  Claim C2.  The claim is that \<open>removeLikeFromPost\<close> fails with the has-not-liked error
  exactly when the user is absent from the like-set, and otherwise removes the entry, so
  that a like followed by its removal restores the like-set.  The absence test is
  \<open>!post.likes.includes(new ObjectId(userId))\<close>, which is always true (lemma
  \<open>removeLikeFromPost_always_fails\<close>).  In the store where the like-set of the post is
  [1], removing the like of user 1 fails with the has-not-liked error and the like-set
  stays [1]; so does the removal right after \<open>addLikeToPost\<close> with the same pair.
\<close>

theorem removeLikeFromPost_liked:
  "map post_likes (PostCollection liked_world) = [[1]] \<and>
   createFromHexString ana_id = Some 1 \<and>
   fst (removeLikeFromPost hi_id ana_id liked_world) = Inl (GraphQLError NoHaDadoLike) \<and>
   map post_likes (PostCollection (snd (removeLikeFromPost hi_id ana_id liked_world))) = [[1]] \<and>
   fst (removeLikeFromPost hi_id ana_id (snd (addLikeToPost hi_id ana_id demo_world))) =
     Inl (GraphQLError NoHaDadoLike) \<and>
   map post_likes
     (PostCollection (snd (removeLikeFromPost hi_id ana_id (snd (addLikeToPost hi_id ana_id demo_world))))) =
     [[1]]"
  by code_simp

section \<open>Users\<close>

text \<open>
  Claim C3.  The claim is that \<open>updateUser\<close> throws the email error only when a different
  user owns the email, the updated user being excluded from the check.  The exclusion is
  written \<open>existeEmail._id !== userId\<close>, on two distinct objects, so it never excludes
  (lemma \<open>updateUser_own_email\<close>).  In the store whose only user has identifier 1 and
  email ana@x.com, updating user 1 with her own email throws the error and changes no user.
\<close>

theorem updateUser_own_email_throws:
  "map user_id (UserCollection demo_world) = [1] \<and>
   map user_email (UserCollection demo_world) = [''ana@x.com''] \<and>
   createFromHexString ana_id = Some 1 \<and>
   fst (updateUser demo_bcrypt ana_id ''Ana'' ''ana@x.com'' ''secret'' demo_world) =
     Inl (GraphQLError EmailRegistradoPorOtro) \<and>
   UserCollection (snd (updateUser demo_bcrypt ana_id ''Ana'' ''ana@x.com'' ''secret'' demo_world)) =
     UserCollection demo_world"
  by code_simp

text \<open>
  Claim C4.  When some user document already holds the email, \<open>createUser\<close> throws the
  duplicate-email error and the user collection is unchanged.  Otherwise it returns a user
  and appends exactly one document to the user collection, the returned user as a
  document: its identifier is the one the driver generated, its name and email are the
  inputs, its password is the hash of the input password with the salt drawn at cost 8,
  and its three reference arrays are empty.  The other collections are unchanged.
\<close>

theorem createUser_spec:
  "(list_ex (\<lambda>d. user_email d = email) (UserCollection w) \<longrightarrow>
      (\<exists>w'. createUser B name email password w = (Inl (GraphQLError EmailYaRegistrado), w') \<and>
         UserCollection w' = UserCollection w)) \<and>
   (\<not> list_ex (\<lambda>d. user_email d = email) (UserCollection w) \<longrightarrow>
      (\<exists>u w'. createUser B name email password w = (Inr u, w') \<and>
         UserCollection w' = UserCollection w @ [toBSON_user u] \<and>
         bytes (user_id u) = nextInsertedId w \<and>
         user_name u = name \<and> user_email u = email \<and>
         user_password u = hash B password (genSalt B 8 (rng w)) \<and>
         user_posts u = [] \<and> user_comments u = [] \<and> user_likedPosts u = [] \<and>
         PostCollection w' = PostCollection w \<and> CommentCollection w' = CommentCollection w))"
proof (cases "find (\<lambda>d. user_email d = email) (UserCollection w)")
  case None
  then have "\<not> list_ex (\<lambda>d. user_email d = email) (UserCollection w)"
    by (simp add: find_None_list_ex)
  with None show ?thesis
    by (simp add: createUser_def await_def store_ops bcrypt_genSalt_def bcrypt_hash_def
        return_def toBSON_user_def)
next
  case (Some d)
  then have "list_ex (\<lambda>d. user_email d = email) (UserCollection w)"
    using find_None_list_ex [of "\<lambda>d. user_email d = email" "UserCollection w"] by simp
  with Some show ?thesis
    by (simp add: createUser_def await_def store_ops throw_def)
qed

theorem createUser_spec_witness:
  "list_ex (\<lambda>d. user_email d = ''ana@x.com'') (UserCollection demo_world) \<and>
   fst (createUser demo_bcrypt ''Ana'' ''ana@x.com'' ''secret'' demo_world) =
     Inl (GraphQLError EmailYaRegistrado) \<and>
   \<not> list_ex (\<lambda>d. user_email d = ''ana@x.com'') (UserCollection empty_world) \<and>
   map user_password
     (UserCollection (snd (createUser demo_bcrypt ''Ana'' ''ana@x.com'' ''secret'' empty_world))) =
     [''$2a$ssssssssterces'']"
proof -
  have a: "list_ex (\<lambda>d. user_email d = ''ana@x.com'') (UserCollection demo_world)"
    by (simp add: demo_world_def ana_def)
  have b: "\<not> list_ex (\<lambda>d. user_email d = ''ana@x.com'') (UserCollection empty_world)"
    by (simp add: empty_world_def)
  have c: "hash demo_bcrypt ''secret'' (genSalt demo_bcrypt 8 (rng empty_world)) =
      ''$2a$ssssssssterces''"
    by (simp add: demo_bcrypt_def empty_world_def eval_nat_numeral)
  show ?thesis
    using createUser_spec [of "''ana@x.com''" demo_world demo_bcrypt "''Ana''" "''secret''"]
      createUser_spec [of "''ana@x.com''" empty_world demo_bcrypt "''Ana''" "''secret''"] a b c
    by (auto simp: toBSON_user_def empty_world_def)
qed

section \<open>Comments\<close>

text \<open>
  Claim C7.  For a well-formed \<open>authorId\<close>: when no user has that identifier,
  \<open>createComment\<close> throws the author-does-not-exist error; when the author exists and the
  well-formed \<open>postId\<close> is the identifier of no post, it throws the post-does-not-exist
  error; in both cases the comment and post collections are unchanged.  When both exist it
  returns the comment, appends it to the comment collection with the generated identifier,
  the text, the author and the post, and appends the generated identifier to the
  comment list of the parent post.
\<close>

theorem createComment_spec:
  assumes "createFromHexString authorId = Some a"
  shows
   "(\<not> list_ex (\<lambda>d. user_id d = a) (UserCollection w) \<longrightarrow>
       (\<exists>w'. createComment text' authorId postId w = (Inl (GraphQLError AutorNoExiste), w') \<and>
          CommentCollection w' = CommentCollection w \<and> PostCollection w' = PostCollection w)) \<and>
    (list_ex (\<lambda>d. user_id d = a) (UserCollection w) \<and> createFromHexString postId = Some p \<and>
     \<not> list_ex (\<lambda>d. post_id d = p) (PostCollection w) \<longrightarrow>
       (\<exists>w'. createComment text' authorId postId w = (Inl (GraphQLError PostNoExiste), w') \<and>
          CommentCollection w' = CommentCollection w \<and> PostCollection w' = PostCollection w)) \<and>
    (list_ex (\<lambda>d. user_id d = a) (UserCollection w) \<and> createFromHexString postId = Some p \<and>
     find (\<lambda>d. post_id d = p) (PostCollection w) = Some q \<longrightarrow>
       (\<exists>c w'. createComment text' authorId postId w = (Inr c, w') \<and>
          toBSON_comment c =
            \<lparr>comment_id = nextInsertedId w, comment_text = Some text', comment_author = a,
             comment_post = p\<rparr> \<and>
          CommentCollection w' = CommentCollection w @ [toBSON_comment c] \<and>
          PostCollection w' =
            updateFirst (\<lambda>d. post_id d = p)
              (\<lambda>d. d\<lparr>post_comments := post_comments d @ [nextInsertedId w]\<rparr>) (PostCollection w) \<and>
          find (\<lambda>d. post_id d = p) (PostCollection w') =
            Some (q\<lparr>post_comments := post_comments q @ [nextInsertedId w]\<rparr>)))"
proof (intro conjI impI)
  assume "\<not> list_ex (\<lambda>d. user_id d = a) (UserCollection w)"
  then have "find (\<lambda>d. user_id d = a) (UserCollection w) = None"
    by (simp add: find_None_list_ex)
  with assms show "\<exists>w'. createComment text' authorId postId w = (Inl (GraphQLError AutorNoExiste), w') \<and>
          CommentCollection w' = CommentCollection w \<and> PostCollection w' = PostCollection w"
    by (simp add: createComment_def await_def new_ObjectId_Some store_ops throw_def)
next
  assume h: "list_ex (\<lambda>d. user_id d = a) (UserCollection w) \<and> createFromHexString postId = Some p \<and>
     \<not> list_ex (\<lambda>d. post_id d = p) (PostCollection w)"
  then obtain u where u: "find (\<lambda>d. user_id d = a) (UserCollection w) = Some u"
    using list_ex_find by blast
  from h have "find (\<lambda>d. post_id d = p) (PostCollection w) = None"
    by (simp add: find_None_list_ex)
  with assms h u show "\<exists>w'. createComment text' authorId postId w = (Inl (GraphQLError PostNoExiste), w') \<and>
          CommentCollection w' = CommentCollection w \<and> PostCollection w' = PostCollection w"
    by (simp add: createComment_def await_def new_ObjectId_Some store_ops throw_def)
next
  assume h: "list_ex (\<lambda>d. user_id d = a) (UserCollection w) \<and> createFromHexString postId = Some p \<and>
     find (\<lambda>d. post_id d = p) (PostCollection w) = Some q"
  then obtain u where u: "find (\<lambda>d. user_id d = a) (UserCollection w) = Some u"
    using list_ex_find by blast
  have f: "find (\<lambda>d. post_id d = p)
       (updateFirst (\<lambda>d. post_id d = p)
         (\<lambda>d. d\<lparr>post_comments := post_comments d @ [nextInsertedId w]\<rparr>) (PostCollection w)) =
      Some (q\<lparr>post_comments := post_comments q @ [nextInsertedId w]\<rparr>)"
    using h by (intro find_updateFirst) simp_all
  from assms h u f show "\<exists>c w'. createComment text' authorId postId w = (Inr c, w') \<and>
          toBSON_comment c =
            \<lparr>comment_id = nextInsertedId w, comment_text = Some text', comment_author = a,
             comment_post = p\<rparr> \<and>
          CommentCollection w' = CommentCollection w @ [toBSON_comment c] \<and>
          PostCollection w' =
            updateFirst (\<lambda>d. post_id d = p)
              (\<lambda>d. d\<lparr>post_comments := post_comments d @ [nextInsertedId w]\<rparr>) (PostCollection w) \<and>
          find (\<lambda>d. post_id d = p) (PostCollection w') =
            Some (q\<lparr>post_comments := post_comments q @ [nextInsertedId w]\<rparr>)"
    by (simp add: createComment_def await_def new_ObjectId_Some store_ops return_def
        toBSON_comment_def)
qed


theorem createComment_spec_witness:
  "createFromHexString no_id = Some 10 \<and>
   \<not> list_ex (\<lambda>d. user_id d = 10) (UserCollection demo_world) \<and>
   fst (createComment ''nice'' no_id hi_id demo_world) = Inl (GraphQLError AutorNoExiste) \<and>
   createFromHexString ana_id = Some 1 \<and>
   list_ex (\<lambda>d. user_id d = 1) (UserCollection demo_world) \<and>
   \<not> list_ex (\<lambda>d. post_id d = 10) (PostCollection demo_world) \<and>
   fst (createComment ''nice'' ana_id no_id demo_world) = Inl (GraphQLError PostNoExiste) \<and>
   CommentCollection (snd (createComment ''nice'' ana_id no_id demo_world)) =
     CommentCollection demo_world \<and>
   createFromHexString hi_id = Some 2 \<and>
   map comment_id (CommentCollection (snd (createComment ''good'' ana_id hi_id demo_world))) = [3, 4] \<and>
   map post_comments (PostCollection (snd (createComment ''good'' ana_id hi_id demo_world))) = [[3, 4]]"
proof -
  have n: "createFromHexString no_id = Some 10" by code_simp
  have a: "createFromHexString ana_id = Some 1" by code_simp
  have h: "createFromHexString hi_id = Some 2" by code_simp
  have d: "\<not> list_ex (\<lambda>d. user_id d = 10) (UserCollection demo_world)"
    "list_ex (\<lambda>d. user_id d = 1) (UserCollection demo_world)"
    "\<not> list_ex (\<lambda>d. post_id d = 10) (PostCollection demo_world)"
    "find (\<lambda>d. post_id d = 2) (PostCollection demo_world) = Some hi"
    by (simp_all add: demo_world_def ana_def hi_def)
  show ?thesis
    using createComment_spec [OF n, where w = demo_world and text' = "''nice''" and postId = hi_id]
      createComment_spec [OF a, where w = demo_world and postId = no_id and p = 10
        and text' = "''nice''"]
      createComment_spec [OF a, where w = demo_world and postId = hi_id and p = 2
        and q = hi and text' = "''good''"]
      n a h d
    by (auto simp: demo_world_def ana_def hi_def nice_def)
qed

section \<open>Updates\<close>

text \<open>
  What the three updates return when they go through.  For a well-formed identifier of an
  existing document, \<open>updatePost\<close> and \<open>updateComment\<close> return the document as it was
  before the update, while the stored document afterwards carries the new content or
  text.  So does \<open>updateUser\<close> when its email check lets it through (an empty email, or an
  email that no user holds).
\<close>

lemma update_snapshot_returned:
  assumes "createFromHexString id' = Some v"
  shows
   "(find (\<lambda>d. user_id d = v) (UserCollection w) = Some du \<and>
     (email = [] \<or> \<not> list_ex (\<lambda>d. user_email d = email) (UserCollection w)) \<longrightarrow>
       (\<exists>j w'. updateUser B id' name email password w = (Inr (Some j), w') \<and>
          toBSON_user j = du \<and>
          find (\<lambda>d. user_id d = v) (UserCollection w') =
            Some (du\<lparr>user_name := name, user_email := email,
                    user_password := hash B password (genSalt B 8 (rng w))\<rparr>))) \<and>
    (find (\<lambda>d. post_id d = v) (PostCollection w) = Some dp \<longrightarrow>
       (\<exists>j w'. updatePost id' content w = (Inr (Some j), w') \<and>
          toBSON_post j = dp \<and>
          find (\<lambda>d. post_id d = v) (PostCollection w') = Some (dp\<lparr>post_content := content\<rparr>))) \<and>
    (find (\<lambda>d. comment_id d = v) (CommentCollection w) = Some dc \<longrightarrow>
       (\<exists>j w'. updateComment id' text' w = (Inr (Some j), w') \<and>
          toBSON_comment j = dc \<and>
          find (\<lambda>d. comment_id d = v) (CommentCollection w') = Some (dc\<lparr>comment_text := text'\<rparr>)))"
proof (intro conjI impI)
  assume h: "find (\<lambda>d. user_id d = v) (UserCollection w) = Some du \<and>
     (email = [] \<or> \<not> list_ex (\<lambda>d. user_email d = email) (UserCollection w))"
  let ?g = "\<lambda>d. d\<lparr>user_name := name, user_email := email,
                    user_password := hash B password (genSalt B 8 (rng w))\<rparr>"
  have f: "find (\<lambda>d. user_id d = v) (updateFirst (\<lambda>d. user_id d = v) ?g (UserCollection w)) =
      Some (?g du)"
    using h by (intro find_updateFirst) simp_all
  have e: "email \<noteq> [] \<Longrightarrow> find (\<lambda>d. user_email d = email) (UserCollection w) = None"
    using h by (simp add: find_None_list_ex)
  from assms h f e
  show "\<exists>j w'. updateUser B id' name email password w = (Inr (Some j), w') \<and>
          toBSON_user j = du \<and>
          find (\<lambda>d. user_id d = v) (UserCollection w') =
            Some (du\<lparr>user_name := name, user_email := email,
                    user_password := hash B password (genSalt B 8 (rng w))\<rparr>)"
    by (cases "email = []")
      (simp_all add: updateUser_def await_def new_ObjectId_Some store_ops return_def
        bcrypt_genSalt_def bcrypt_hash_def)
next
  assume h: "find (\<lambda>d. post_id d = v) (PostCollection w) = Some dp"
  have f: "find (\<lambda>d. post_id d = v)
      (updateFirst (\<lambda>d. post_id d = v) (\<lambda>d. d\<lparr>post_content := content\<rparr>) (PostCollection w)) =
      Some (dp\<lparr>post_content := content\<rparr>)"
    using h by (intro find_updateFirst) simp_all
  from assms h f
  show "\<exists>j w'. updatePost id' content w = (Inr (Some j), w') \<and>
          toBSON_post j = dp \<and>
          find (\<lambda>d. post_id d = v) (PostCollection w') = Some (dp\<lparr>post_content := content\<rparr>)"
    by (simp add: updatePost_def await_def new_ObjectId_Some store_ops)
next
  assume h: "find (\<lambda>d. comment_id d = v) (CommentCollection w) = Some dc"
  have f: "find (\<lambda>d. comment_id d = v)
      (updateFirst (\<lambda>d. comment_id d = v) (\<lambda>d. d\<lparr>comment_text := text'\<rparr>) (CommentCollection w)) =
      Some (dc\<lparr>comment_text := text'\<rparr>)"
    using h by (intro find_updateFirst) simp_all
  from assms h f
  show "\<exists>j w'. updateComment id' text' w = (Inr (Some j), w') \<and>
          toBSON_comment j = dc \<and>
          find (\<lambda>d. comment_id d = v) (CommentCollection w') = Some (dc\<lparr>comment_text := text'\<rparr>)"
    by (simp add: updateComment_def await_def new_ObjectId_Some store_ops)
qed

lemma update_snapshot_returned_example:
  "createFromHexString ana_id = Some 1 \<and>
   find (\<lambda>d. user_id d = 1) (UserCollection demo_world) = Some ana \<and>
   \<not> list_ex (\<lambda>d. user_email d = ''ana@y.com'') (UserCollection demo_world) \<and>
   (\<exists>j w'. updateUser demo_bcrypt ana_id ''Ana'' ''ana@y.com'' ''secret'' demo_world =
        (Inr (Some j), w') \<and>
      toBSON_user j = ana \<and>
      find (\<lambda>d. user_id d = 1) (UserCollection w') =
        Some (ana\<lparr>user_name := ''Ana'', user_email := ''ana@y.com'',
                  user_password := ''$2a$ssssssssrterces''\<rparr>)) \<and>
   createFromHexString hi_id = Some 2 \<and>
   find (\<lambda>d. post_id d = 2) (PostCollection demo_world) = Some hi \<and>
   (\<exists>j w'. updatePost hi_id (Some ''bye'') demo_world = (Inr (Some j), w') \<and>
      toBSON_post j = hi \<and>
      find (\<lambda>d. post_id d = 2) (PostCollection w') = Some (hi\<lparr>post_content := Some ''bye''\<rparr>)) \<and>
   createFromHexString nice_id = Some 3 \<and>
   find (\<lambda>d. comment_id d = 3) (CommentCollection demo_world) = Some nice \<and>
   (\<exists>j w'. updateComment nice_id None demo_world = (Inr (Some j), w') \<and>
      toBSON_comment j = nice \<and>
      find (\<lambda>d. comment_id d = 3) (CommentCollection w') = Some (nice\<lparr>comment_text := None\<rparr>))"
proof -
  have a: "createFromHexString ana_id = Some 1" by code_simp
  have h: "createFromHexString hi_id = Some 2" by code_simp
  have n: "createFromHexString nice_id = Some 3" by code_simp
  have d: "find (\<lambda>d. user_id d = 1) (UserCollection demo_world) = Some ana"
    "find (\<lambda>d. post_id d = 2) (PostCollection demo_world) = Some hi"
    "find (\<lambda>d. comment_id d = 3) (CommentCollection demo_world) = Some nice"
    "\<not> list_ex (\<lambda>d. user_email d = ''ana@y.com'') (UserCollection demo_world)"
    by (simp_all add: demo_world_def ana_def hi_def nice_def)
  have s: "hash demo_bcrypt ''secret'' (genSalt demo_bcrypt 8 (rng demo_world)) =
      ''$2a$ssssssssrterces''"
    by (simp add: demo_bcrypt_def demo_world_def eval_nat_numeral)
  have "\<exists>j w'. updateUser demo_bcrypt ana_id ''Ana'' ''ana@y.com'' ''secret'' demo_world =
        (Inr (Some j), w') \<and>
      toBSON_user j = ana \<and>
      find (\<lambda>d. user_id d = 1) (UserCollection w') =
        Some (ana\<lparr>user_name := ''Ana'', user_email := ''ana@y.com'',
                  user_password := ''$2a$ssssssssrterces''\<rparr>)"
    using update_snapshot_returned [OF a, where w = demo_world and du = ana
        and email = "''ana@y.com''" and B = demo_bcrypt and name = "''Ana''"
        and password = "''secret''", THEN conjunct1] d s
    by simp
  moreover have "\<exists>j w'. updatePost hi_id (Some ''bye'') demo_world = (Inr (Some j), w') \<and>
      toBSON_post j = hi \<and>
      find (\<lambda>d. post_id d = 2) (PostCollection w') = Some (hi\<lparr>post_content := Some ''bye''\<rparr>)"
    using update_snapshot_returned [OF h, where w = demo_world
        and dp = hi and content = "Some ''bye''", THEN conjunct2, THEN conjunct1] d
    by simp
  moreover have "\<exists>j w'. updateComment nice_id None demo_world = (Inr (Some j), w') \<and>
      toBSON_comment j = nice \<and>
      find (\<lambda>d. comment_id d = 3) (CommentCollection w') = Some (nice\<lparr>comment_text := None\<rparr>)"
    using update_snapshot_returned [OF n, where w = demo_world
        and dc = nice and text' = None, THEN conjunct2, THEN conjunct2] d
    by simp
  ultimately show ?thesis using a h n d by simp
qed

text \<open>
  An update of a user that keeps the email of the row never goes through: the email check
  finds a user with that email and compares identifiers by identity.
\<close>

lemma find_Some_set: "find p xs = Some d \<Longrightarrow> d \<in> set xs \<and> p d"
  by (induction xs) (auto split: if_splits)

lemma updateUser_keeps_email_throws:
  assumes "createFromHexString id' = Some v"
    and "find (\<lambda>d. user_id d = v) (UserCollection w) = Some du"
    and "user_email du \<noteq> []"
  shows "fst (updateUser B id' name (user_email du) password w) =
           Inl (GraphQLError EmailRegistradoPorOtro)"
    and "UserCollection (snd (updateUser B id' name (user_email du) password w)) =
           UserCollection w"
proof -
  from assms(2) have "du \<in> set (UserCollection w)"
    by (simp add: find_Some_set)
  then have "list_ex (\<lambda>d. user_email d = user_email du) (UserCollection w)"
    by (auto simp: list_ex_iff)
  then obtain d where
    d: "find (\<lambda>d. user_email d = user_email du) (UserCollection w) = Some d"
    using list_ex_find by blast
  show "fst (updateUser B id' name (user_email du) password w) =
           Inl (GraphQLError EmailRegistradoPorOtro)"
    and "UserCollection (snd (updateUser B id' name (user_email du) password w)) =
           UserCollection w"
    using updateUser_own_email [OF assms(1) assms(3) d, of B name password] by simp_all
qed

text \<open>
  Claim C8.  The claim is that for every existing row \<open>updateUser\<close>, \<open>updatePost\<close> and
  \<open>updateComment\<close> return the row as it was before the update.  \<open>updatePost\<close> and
  \<open>updateComment\<close> do.  \<open>updateUser\<close> does not when the input keeps the email of the row
  (lemma \<open>updateUser_keeps_email_throws\<close>): the check \<open>existeEmail._id !== userId\<close> that
  should let the row's own email through compares two objects, so the resolver throws and
  returns no row.  In the store whose only user has identifier 1 and email ana@x.com,
  renaming user 1 with her email unchanged throws the email error and leaves the user as
  she was, while the updates of the post and of the comment return the prior documents
  and store the new ones.
\<close>

theorem updateUser_keep_email_no_snapshot:
  "createFromHexString ana_id = Some 1 \<and>
   find (\<lambda>d. user_id d = 1) (UserCollection demo_world) = Some ana \<and>
   user_email ana = ''ana@x.com'' \<and>
   fst (updateUser demo_bcrypt ana_id ''Ana Maria'' ''ana@x.com'' ''secret'' demo_world) =
     Inl (GraphQLError EmailRegistradoPorOtro) \<and>
   UserCollection (snd (updateUser demo_bcrypt ana_id ''Ana Maria'' ''ana@x.com'' ''secret''
     demo_world)) = [ana] \<and>
   map_sum id (map_option toBSON_post) (fst (updatePost hi_id (Some ''bye'') demo_world)) =
     Inr (Some hi) \<and>
   PostCollection (snd (updatePost hi_id (Some ''bye'') demo_world)) =
     [hi\<lparr>post_content := Some ''bye''\<rparr>] \<and>
   map_sum id (map_option toBSON_comment) (fst (updateComment nice_id None demo_world)) =
     Inr (Some nice) \<and>
   CommentCollection (snd (updateComment nice_id None demo_world)) =
     [nice\<lparr>comment_text := None\<rparr>]"
  by code_simp

section \<open>Deleting users and posts\<close>

text \<open>
  Claim C9.  For a well-formed identifier, \<open>deleteUser\<close> and \<open>deletePost\<close> never throw:
  they return \<open>true\<close> exactly when a document with that identifier was in the collection,
  in which case exactly one document (the first with that identifier) is removed, and
  \<open>false\<close> when no document matches, in which case the collection is unchanged.  The
  caller only learns the boolean, so an identifier that never existed and one already
  deleted look the same.  The other two collections are left as they were.
\<close>

theorem delete_returns_removed:
  assumes "createFromHexString id' = Some v"
  shows "(\<exists>w'. deleteUser id' w = (Inr (list_ex (\<lambda>d. user_id d = v) (UserCollection w)), w') \<and>
            UserCollection w' = deleteFirst (\<lambda>d. user_id d = v) (UserCollection w) \<and>
            length (UserCollection w') +
              (if list_ex (\<lambda>d. user_id d = v) (UserCollection w) then 1 else 0) =
              length (UserCollection w) \<and>
            (\<not> list_ex (\<lambda>d. user_id d = v) (UserCollection w) \<longrightarrow>
               UserCollection w' = UserCollection w) \<and>
            PostCollection w' = PostCollection w \<and> CommentCollection w' = CommentCollection w) \<and>
         (\<exists>w'. deletePost id' w = (Inr (list_ex (\<lambda>d. post_id d = v) (PostCollection w)), w') \<and>
            PostCollection w' = deleteFirst (\<lambda>d. post_id d = v) (PostCollection w) \<and>
            length (PostCollection w') +
              (if list_ex (\<lambda>d. post_id d = v) (PostCollection w) then 1 else 0) =
              length (PostCollection w) \<and>
            (\<not> list_ex (\<lambda>d. post_id d = v) (PostCollection w) \<longrightarrow>
               PostCollection w' = PostCollection w) \<and>
            UserCollection w' = UserCollection w \<and> CommentCollection w' = CommentCollection w)"
proof -
  let ?pu = "\<lambda>d::oid UserModel. user_id d = v"
  let ?pp = "\<lambda>d::oid PostModel. post_id d = v"
  have u: "deleteUser id' w =
      (Inr (list_ex ?pu (UserCollection w)),
       w\<lparr>UserCollection := deleteFirst ?pu (UserCollection w), nextAddr := Suc (nextAddr w)\<rparr>)"
    using assms
    by (simp add: deleteUser_def await_def new_ObjectId_Some deleteOne_Users return_def
        find_None_list_ex)
  have p: "deletePost id' w =
      (Inr (list_ex ?pp (PostCollection w)),
       w\<lparr>PostCollection := deleteFirst ?pp (PostCollection w), nextAddr := Suc (nextAddr w)\<rparr>)"
    using assms
    by (simp add: deletePost_def await_def new_ObjectId_Some deleteOne_Posts return_def
        find_None_list_ex)
  have lu: "length (deleteFirst ?pu (UserCollection w)) +
      (if list_ex ?pu (UserCollection w) then 1 else 0) = length (UserCollection w)"
    using length_deleteFirst [of ?pu "UserCollection w"] deleteFirst_none [of ?pu "UserCollection w"]
    by simp
  have lp: "length (deleteFirst ?pp (PostCollection w)) +
      (if list_ex ?pp (PostCollection w) then 1 else 0) = length (PostCollection w)"
    using length_deleteFirst [of ?pp "PostCollection w"] deleteFirst_none [of ?pp "PostCollection w"]
    by simp
  show ?thesis
    unfolding u p using lu lp by (simp add: deleteFirst_none)
qed

theorem delete_returns_removed_witness:
  "createFromHexString ana_id = Some 1 \<and>
   fst (deleteUser ana_id demo_world) = Inr True \<and>
   UserCollection (snd (deleteUser ana_id demo_world)) = [] \<and>
   fst (deleteUser ana_id (snd (deleteUser ana_id demo_world))) = Inr False \<and>
   createFromHexString no_id = Some 10 \<and>
   fst (deletePost no_id demo_world) = Inr False \<and>
   PostCollection (snd (deletePost no_id demo_world)) = PostCollection demo_world"
proof -
  have a: "createFromHexString ana_id = Some 1" by code_simp
  have n: "createFromHexString no_id = Some 10" by code_simp
  have d: "UserCollection demo_world \<noteq> []" "list_ex (\<lambda>d. user_id d = 1) (UserCollection demo_world)"
    "\<not> list_ex (\<lambda>d. post_id d = 10) (PostCollection demo_world)"
    by (simp_all add: demo_world_def ana_def hi_def)
  show ?thesis
    using delete_returns_removed [OF a, of demo_world]
      delete_returns_removed [OF n, of demo_world] 
      delete_returns_removed [OF a, of "snd (deleteUser ana_id demo_world)"] a n d
    by (auto simp: demo_world_def ana_def hi_def)
qed

section \<open>Create, then get by identifier\<close>

text \<open>
  Claim C5, as stated: for every valid create input the fields of the returned entity
  equal the input fields.  It fails for the password of \<open>createUser\<close>: in the empty store,
  creating the user (Ana, ana@x.com, secret) returns a user whose password field is the
  digest of the hasher, not the input password.
\<close>

theorem createUser_password_counterexample:
  "\<not> list_ex (\<lambda>d. user_email d = ''ana@x.com'') (UserCollection empty_world) \<and>
   fst (createUser demo_bcrypt ''Ana'' ''ana@x.com'' ''secret'' empty_world) =
     Inr \<lparr>user_id = ObjectId 0 0, user_name = ''Ana'', user_password = ''$2a$ssssssssterces'',
          user_email = ''ana@x.com'', user_posts = [], user_comments = [],
          user_likedPosts = []\<rparr> \<and>
   ''$2a$ssssssssterces'' \<noteq> ''secret''"
  by code_simp

text \<open>
  Claim C5, amended.  In a store that satisfies the invariant, for valid create inputs:
  \<open>createUser\<close> returns a user with the input name and email, whose password is the hash
  of the input password with the drawn salt; \<open>createPost\<close> returns a post with the input
  content and author; \<open>createComment\<close> returns a comment with the input text, author and
  post.  In each case the returned identifier is the generated one, and a get-by-id query
  with any string that denotes the returned identifier, run right after, returns an
  entity with the same field values as the returned one.
\<close>

theorem create_get_roundtrip:
  assumes "wf_world w"
  shows
   "(\<not> list_ex (\<lambda>d. user_email d = email) (UserCollection w) \<longrightarrow>
       (\<exists>u w'. createUser B name email password w = (Inr u, w') \<and>
          bytes (user_id u) = nextInsertedId w \<and>
          user_name u = name \<and> user_email u = email \<and>
          user_password u = hash B password (genSalt B 8 (rng w)) \<and>
          (\<forall>s. createFromHexString s = Some (bytes (user_id u)) \<longrightarrow>
             (\<exists>u' w''. Query_user s w' = (Inr (Some u'), w'') \<and>
                toBSON_user u' = toBSON_user u)))) \<and>
    (createFromHexString authorId = Some a \<and>
     list_ex (\<lambda>d. user_id d = a) (UserCollection w) \<longrightarrow>
       (\<exists>p w'. createPost content authorId w = (Inr p, w') \<and>
          bytes (post_id p) = nextInsertedId w \<and>
          post_content p = Some content \<and> bytes (post_author p) = a \<and>
          (\<forall>s. createFromHexString s = Some (bytes (post_id p)) \<longrightarrow>
             (\<exists>p' w''. Query_post s w' = (Inr (Some p'), w'') \<and>
                toBSON_post p' = toBSON_post p)))) \<and>
    (createFromHexString authorId = Some a \<and>
     list_ex (\<lambda>d. user_id d = a) (UserCollection w) \<and>
     createFromHexString postId = Some q \<and>
     list_ex (\<lambda>d. post_id d = q) (PostCollection w) \<longrightarrow>
       (\<exists>c w'. createComment text' authorId postId w = (Inr c, w') \<and>
          bytes (comment_id c) = nextInsertedId w \<and>
          comment_text c = Some text' \<and> bytes (comment_author c) = a \<and>
          bytes (comment_post c) = q \<and>
          (\<forall>s. createFromHexString s = Some (bytes (comment_id c)) \<longrightarrow>
             (\<exists>c' w''. Query_comment s w' = (Inr (Some c'), w'') \<and>
                toBSON_comment c' = toBSON_comment c))))"
proof (intro conjI impI)
  let ?n = "nextInsertedId w"
  assume h: "\<not> list_ex (\<lambda>d. user_email d = email) (UserCollection w)"
  let ?d = "\<lparr>user_id = ?n, user_name = name,
      user_password = hash B password (genSalt B 8 (rng w)), user_email = email,
      user_posts = [], user_comments = [], user_likedPosts = []\<rparr>"
  from h have e: "find (\<lambda>d. user_email d = email) (UserCollection w) = None"
    by (simp add: find_None_list_ex)
  have f: "find (\<lambda>d. user_id d = ?n) (UserCollection w @ [?d]) = Some ?d"
    using assms by (intro find_fresh) (simp_all add: wf_world_def)
  show "\<exists>u w'. createUser B name email password w = (Inr u, w') \<and>
          bytes (user_id u) = nextInsertedId w \<and>
          user_name u = name \<and> user_email u = email \<and>
          user_password u = hash B password (genSalt B 8 (rng w)) \<and>
          (\<forall>s. createFromHexString s = Some (bytes (user_id u)) \<longrightarrow>
             (\<exists>u' w''. Query_user s w' = (Inr (Some u'), w'') \<and>
                toBSON_user u' = toBSON_user u))"
    using e f
    by (simp add: createUser_def await_def store_ops bcrypt_genSalt_def bcrypt_hash_def
        return_def Query_user_def new_ObjectId_Some toBSON_user_def user_at_def ids_at_def)
next
  let ?n = "nextInsertedId w"
  assume h: "createFromHexString authorId = Some a \<and>
     list_ex (\<lambda>d. user_id d = a) (UserCollection w)"
  then obtain u where u: "find (\<lambda>d. user_id d = a) (UserCollection w) = Some u"
    using list_ex_find by blast
  let ?d = "\<lparr>post_id = ?n, post_content = Some content, post_author = a,
      post_comments = [], post_likes = []\<rparr>"
  have f: "find (\<lambda>d. post_id d = ?n) (PostCollection w @ [?d]) = Some ?d"
    using assms by (intro find_fresh) (simp_all add: wf_world_def)
  show "\<exists>p w'. createPost content authorId w = (Inr p, w') \<and>
          bytes (post_id p) = nextInsertedId w \<and>
          post_content p = Some content \<and> bytes (post_author p) = a \<and>
          (\<forall>s. createFromHexString s = Some (bytes (post_id p)) \<longrightarrow>
             (\<exists>p' w''. Query_post s w' = (Inr (Some p'), w'') \<and>
                toBSON_post p' = toBSON_post p))"
    using h u f
    by (simp add: createPost_def await_def store_ops return_def Query_post_def
        new_ObjectId_Some toBSON_post_def post_at_def ids_at_def)
next
  let ?n = "nextInsertedId w"
  assume h: "createFromHexString authorId = Some a \<and>
     list_ex (\<lambda>d. user_id d = a) (UserCollection w) \<and>
     createFromHexString postId = Some q \<and>
     list_ex (\<lambda>d. post_id d = q) (PostCollection w)"
  then obtain u where u: "find (\<lambda>d. user_id d = a) (UserCollection w) = Some u"
    using list_ex_find by blast
  from h obtain p where p: "find (\<lambda>d. post_id d = q) (PostCollection w) = Some p"
    using list_ex_find by blast
  let ?d = "\<lparr>comment_id = ?n, comment_text = Some text', comment_author = a,
      comment_post = q\<rparr>"
  have f: "find (\<lambda>d. comment_id d = ?n) (CommentCollection w @ [?d]) = Some ?d"
    using assms by (intro find_fresh) (simp_all add: wf_world_def)
  show "\<exists>c w'. createComment text' authorId postId w = (Inr c, w') \<and>
          bytes (comment_id c) = nextInsertedId w \<and>
          comment_text c = Some text' \<and> bytes (comment_author c) = a \<and>
          bytes (comment_post c) = q \<and>
          (\<forall>s. createFromHexString s = Some (bytes (comment_id c)) \<longrightarrow>
             (\<exists>c' w''. Query_comment s w' = (Inr (Some c'), w'') \<and>
                toBSON_comment c' = toBSON_comment c))"
    using h u p f
    by (simp add: createComment_def await_def store_ops return_def Query_comment_def
        new_ObjectId_Some toBSON_comment_def comment_at_def)
qed

theorem create_get_roundtrip_witness:
  "wf_world demo_world \<and>
   \<not> list_ex (\<lambda>d. user_email d = ''bea@x.com'') (UserCollection demo_world) \<and>
   createFromHexString new_id = Some 4 \<and>
   (\<exists>u w' u' w''. createUser demo_bcrypt ''Bea'' ''bea@x.com'' ''pw'' demo_world = (Inr u, w') \<and>
      user_name u = ''Bea'' \<and> user_email u = ''bea@x.com'' \<and>
      Query_user new_id w' = (Inr (Some u'), w'') \<and> toBSON_user u' = toBSON_user u) \<and>
   createFromHexString ana_id = Some 1 \<and>
   list_ex (\<lambda>d. user_id d = 1) (UserCollection demo_world) \<and>
   (\<exists>p w' p' w''. createPost ''hello'' ana_id demo_world = (Inr p, w') \<and>
      post_content p = Some ''hello'' \<and> bytes (post_author p) = 1 \<and>
      Query_post new_id w' = (Inr (Some p'), w'') \<and> toBSON_post p' = toBSON_post p) \<and>
   createFromHexString hi_id = Some 2 \<and>
   list_ex (\<lambda>d. post_id d = 2) (PostCollection demo_world) \<and>
   (\<exists>c w' c' w''. createComment ''good'' ana_id hi_id demo_world = (Inr c, w') \<and>
      comment_text c = Some ''good'' \<and> bytes (comment_author c) = 1 \<and>
      bytes (comment_post c) = 2 \<and>
      Query_comment new_id w' = (Inr (Some c'), w'') \<and> toBSON_comment c' = toBSON_comment c)"
proof -
  have wf: "wf_world demo_world"
    by (simp add: wf_world_def ids_ok_def demo_world_def ana_def hi_def nice_def)
  have a: "createFromHexString ana_id = Some 1" by code_simp
  have h: "createFromHexString hi_id = Some 2" by code_simp
  have n: "createFromHexString new_id = Some 4" by code_simp
  have d: "\<not> list_ex (\<lambda>d. user_email d = ''bea@x.com'') (UserCollection demo_world)"
    "list_ex (\<lambda>d. user_id d = 1) (UserCollection demo_world)"
    "list_ex (\<lambda>d. post_id d = 2) (PostCollection demo_world)"
    "nextInsertedId demo_world = 4"
    by (simp_all add: demo_world_def ana_def hi_def)
  have "\<exists>u w' u' w''. createUser demo_bcrypt ''Bea'' ''bea@x.com'' ''pw'' demo_world = (Inr u, w') \<and>
      user_name u = ''Bea'' \<and> user_email u = ''bea@x.com'' \<and>
      Query_user new_id w' = (Inr (Some u'), w'') \<and> toBSON_user u' = toBSON_user u"
    using create_get_roundtrip [OF wf, where email = "''bea@x.com''" and B = demo_bcrypt
        and name = "''Bea''" and password = "''pw''", THEN conjunct1] d n
    by (metis (no_types, lifting))
  moreover
  have "\<exists>p w' p' w''. createPost ''hello'' ana_id demo_world = (Inr p, w') \<and>
      post_content p = Some ''hello'' \<and> bytes (post_author p) = 1 \<and>
      Query_post new_id w' = (Inr (Some p'), w'') \<and> toBSON_post p' = toBSON_post p"
    using create_get_roundtrip [OF wf, where authorId = ana_id and a = 1
        and content = "''hello''", THEN conjunct2, THEN conjunct1] d n a
    by (metis (no_types, lifting))
  moreover
  have "\<exists>c w' c' w''. createComment ''good'' ana_id hi_id demo_world = (Inr c, w') \<and>
      comment_text c = Some ''good'' \<and> bytes (comment_author c) = 1 \<and>
      bytes (comment_post c) = 2 \<and>
      Query_comment new_id w' = (Inr (Some c'), w'') \<and> toBSON_comment c' = toBSON_comment c"
    using create_get_roundtrip [OF wf, where authorId = ana_id and a = 1 and postId = hi_id
        and q = 2 and text' = "''good''", THEN conjunct2, THEN conjunct2] d n a h
    by (metis (no_types, lifting))
  ultimately show ?thesis using wf a h n d by simp
qed

section \<open>Deleting a comment\<close>

text \<open>
  Claim C6.  For a well-formed identifier: when no comment has it, \<open>deleteComment\<close> throws
  the comment-does-not-exist error and changes neither comments nor posts.  When a
  comment has it, in a store that satisfies the invariant, \<open>deleteComment\<close> returns
  \<open>true\<close>; exactly one comment is removed, a lookup of the identifier afterwards returns
  null, the identifier is pulled from the comment list of the post the comment pointed
  to, and no post with that identifier still lists it.  The end of the resolver pulls and
  returns \<open>true\<close> when \<open>deleteOne\<close> reported one removal, and returns \<open>false\<close> without
  touching the store for any other count.
\<close>

theorem deleteComment_spec:
  assumes "createFromHexString id' = Some c"
  shows
   "(\<not> list_ex (\<lambda>d. comment_id d = c) (CommentCollection w) \<longrightarrow>
       (\<exists>w'. deleteComment id' w = (Inl (GraphQLError ComentarioNoExiste), w') \<and>
          CommentCollection w' = CommentCollection w \<and> PostCollection w' = PostCollection w)) \<and>
    (wf_world w \<and> find (\<lambda>d. comment_id d = c) (CommentCollection w) = Some d \<longrightarrow>
       (\<exists>w'. deleteComment id' w = (Inr True, w') \<and>
          CommentCollection w' = deleteFirst (\<lambda>d. comment_id d = c) (CommentCollection w) \<and>
          Suc (length (CommentCollection w')) = length (CommentCollection w) \<and>
          (\<exists>w''. Query_comment id' w' = (Inr None, w'')) \<and>
          PostCollection w' =
            updateFirst (\<lambda>q. post_id q = comment_post d)
              (\<lambda>q. q\<lparr>post_comments := removeAll c (post_comments q)\<rparr>) (PostCollection w) \<and>
          list_all (\<lambda>q. post_id q = comment_post d \<longrightarrow> c \<notin> set (post_comments q))
            (PostCollection w'))) \<and>
    deleteComment_finish commentId comment 1 w =
      (Inr True,
       w\<lparr>PostCollection :=
           updateFirst (\<lambda>q. post_id q = bytes (comment_post comment))
             (\<lambda>q. q\<lparr>post_comments := removeAll (bytes commentId) (post_comments q)\<rparr>)
             (PostCollection w)\<rparr>) \<and>
    (n \<noteq> 1 \<longrightarrow> deleteComment_finish commentId comment n w = (Inr False, w))"
proof (intro conjI impI)
  assume "\<not> list_ex (\<lambda>d. comment_id d = c) (CommentCollection w)"
  then have "find (\<lambda>d. comment_id d = c) (CommentCollection w) = None"
    by (simp add: find_None_list_ex)
  with assms
  show "\<exists>w'. deleteComment id' w = (Inl (GraphQLError ComentarioNoExiste), w') \<and>
          CommentCollection w' = CommentCollection w \<and> PostCollection w' = PostCollection w"
    by (simp add: deleteComment_def await_def new_ObjectId_Some store_ops throw_def)
next
  assume h: "wf_world w \<and> find (\<lambda>d. comment_id d = c) (CommentCollection w) = Some d"
  let ?cs = "deleteFirst (\<lambda>d. comment_id d = c) (CommentCollection w)"
  let ?g = "\<lambda>q. q\<lparr>post_comments := removeAll c (post_comments q)\<rparr>"
  let ?ps = "updateFirst (\<lambda>q. post_id q = comment_post d) ?g (PostCollection w)"
  from h have ex: "list_ex (\<lambda>d. comment_id d = c) (CommentCollection w)"
    by (simp add: find_Some_list_ex)
  from h have dc: "distinct (map comment_id (CommentCollection w))"
    and dp: "distinct (map post_id (PostCollection w))"
    by (simp_all add: wf_world_def ids_ok_def)
  have gone: "find (\<lambda>d. comment_id d = c) ?cs = None"
    using deleteFirst_absent [OF dc, of c] by (simp add: find_None_list_ex)
  have len: "Suc (length ?cs) = length (CommentCollection w)"
    using ex by (rule length_deleteFirst)
  have pulled: "list_all (\<lambda>q. post_id q = comment_post d \<longrightarrow> c \<notin> set (post_comments q)) ?ps"
    unfolding list_all_iff
  proof (intro ballI impI)
    fix q assume "q \<in> set ?ps" "post_id q = comment_post d"
    then have "q \<in> ?g ` set (PostCollection w)"
      using updateFirst_distinct [OF dp, of ?g q "comment_post d"] by simp
    then show "c \<notin> set (post_comments q)" by auto
  qed
  from assms h gone len pulled
  show "\<exists>w'. deleteComment id' w = (Inr True, w') \<and>
          CommentCollection w' = deleteFirst (\<lambda>d. comment_id d = c) (CommentCollection w) \<and>
          Suc (length (CommentCollection w')) = length (CommentCollection w) \<and>
          (\<exists>w''. Query_comment id' w' = (Inr None, w'')) \<and>
          PostCollection w' =
            updateFirst (\<lambda>q. post_id q = comment_post d)
              (\<lambda>q. q\<lparr>post_comments := removeAll c (post_comments q)\<rparr>) (PostCollection w) \<and>
          list_all (\<lambda>q. post_id q = comment_post d \<longrightarrow> c \<notin> set (post_comments q))
            (PostCollection w')"
    by (simp add: deleteComment_def deleteComment_finish_def await_def new_ObjectId_Some
        store_ops return_def Query_comment_def comment_at_def)
next
  show "deleteComment_finish commentId comment 1 w =
      (Inr True,
       w\<lparr>PostCollection :=
           updateFirst (\<lambda>q. post_id q = bytes (comment_post comment))
             (\<lambda>q. q\<lparr>post_comments := removeAll (bytes commentId) (post_comments q)\<rparr>)
             (PostCollection w)\<rparr>)"
    by (simp add: deleteComment_finish_def await_def store_ops return_def)
next
  assume "n \<noteq> 1"
  then show "deleteComment_finish commentId comment n w = (Inr False, w)"
    by (simp add: deleteComment_finish_def return_def)
qed

theorem deleteComment_spec_witness:
  "createFromHexString no_id = Some 10 \<and>
   \<not> list_ex (\<lambda>d. comment_id d = 10) (CommentCollection demo_world) \<and>
   fst (deleteComment no_id demo_world) = Inl (GraphQLError ComentarioNoExiste) \<and>
   createFromHexString nice_id = Some 3 \<and>
   wf_world demo_world \<and>
   find (\<lambda>d. comment_id d = 3) (CommentCollection demo_world) = Some nice \<and>
   fst (deleteComment nice_id demo_world) = Inr True \<and>
   CommentCollection (snd (deleteComment nice_id demo_world)) = [] \<and>
   PostCollection (snd (deleteComment nice_id demo_world)) = [hi\<lparr>post_comments := []\<rparr>] \<and>
   (2::nat) \<noteq> 1 \<and>
   deleteComment_finish (ObjectId 0 3) (comment_at 1 nice) 2 demo_world = (Inr False, demo_world)"
proof -
  have wf: "wf_world demo_world"
    by (simp add: wf_world_def ids_ok_def demo_world_def ana_def hi_def nice_def)
  have x: "createFromHexString no_id = Some 10" by code_simp
  have n: "createFromHexString nice_id = Some 3" by code_simp
  have d: "\<not> list_ex (\<lambda>d. comment_id d = 10) (CommentCollection demo_world)"
    "find (\<lambda>d. comment_id d = 3) (CommentCollection demo_world) = Some nice"
    "deleteFirst (\<lambda>d. comment_id d = 3) (CommentCollection demo_world) = []"
    "updateFirst (\<lambda>q. post_id q = comment_post nice)
       (\<lambda>q. q\<lparr>post_comments := removeAll 3 (post_comments q)\<rparr>) (PostCollection demo_world) =
     [hi\<lparr>post_comments := []\<rparr>]"
    by (simp_all add: demo_world_def ana_def hi_def nice_def)
  have "fst (deleteComment no_id demo_world) = Inl (GraphQLError ComentarioNoExiste)"
    using deleteComment_spec [OF x, where w = demo_world, THEN conjunct1] d by auto
  moreover
  have "fst (deleteComment nice_id demo_world) = Inr True \<and>
    CommentCollection (snd (deleteComment nice_id demo_world)) = [] \<and>
    PostCollection (snd (deleteComment nice_id demo_world)) = [hi\<lparr>post_comments := []\<rparr>]"
    using deleteComment_spec [OF n, where w = demo_world and d = nice, THEN conjunct2,
        THEN conjunct1] d wf
    by auto
  moreover
  have "deleteComment_finish (ObjectId 0 3) (comment_at 1 nice) 2 demo_world =
      (Inr False, demo_world)"
    using deleteComment_spec [OF n, where n = 2 and w = demo_world
        and commentId = "ObjectId 0 3" and comment = "comment_at 1 nice",
        THEN conjunct2, THEN conjunct2, THEN conjunct2]
    by simp
  ultimately show ?thesis using wf x n d by simp
qed

section \<open>The reference arrays of a user are never written\<close>

text \<open>
  Claim C10.  Whatever the mutation and whether it returns or throws, every user document
  afterwards has the identifier and the three reference arrays of a user document before,
  or is the newly created one with three empty arrays; so in every store reached from the
  empty one by mutations all user documents have empty reference arrays.  The resolvers
  \<open>User.posts\<close>, \<open>User.comments\<close> and \<open>User.likedPosts\<close> do not depend on the arrays of
  the parent: they return the posts whose author is the parent, the comments whose author
  is the parent, and the posts whose like list holds the parent, read from the collections.
\<close>

theorem user_refs_never_written:
  "refs_untouched w (exec B m w) \<and>
   list_all (\<lambda>d. user_refs d = ([], [], []))
     (UserCollection (foldl (\<lambda>w m. exec B m w) empty_world ms)) \<and>
   User_posts (parent\<lparr>user_posts := ps, user_comments := cs, user_likedPosts := ls\<rparr>) =
     User_posts parent \<and>
   User_comments (parent\<lparr>user_posts := ps, user_comments := cs, user_likedPosts := ls\<rparr>) =
     User_comments parent \<and>
   User_likedPosts (parent\<lparr>user_posts := ps, user_comments := cs, user_likedPosts := ls\<rparr>) =
     User_likedPosts parent \<and>
   (\<exists>js w'. User_posts parent w = (Inr js, w') \<and>
      map toBSON_post js =
        filter (\<lambda>d. post_author d = bytes (user_id parent)) (PostCollection w)) \<and>
   (\<exists>js w'. User_comments parent w = (Inr js, w') \<and>
      map toBSON_comment js =
        filter (\<lambda>d. comment_author d = bytes (user_id parent)) (CommentCollection w)) \<and>
   (\<exists>js w'. User_likedPosts parent w = (Inr js, w') \<and>
      map toBSON_post js =
        filter (\<lambda>d. bytes (user_id parent) \<in> set (post_likes d)) (PostCollection w))"
  using refs_exec [of w B m] refs_empty_reachable [of B ms]
    find_toArray_Posts [of "\<lambda>d. post_author d = bytes (user_id parent)" w]
    find_toArray_Comments [of "\<lambda>d. comment_author d = bytes (user_id parent)" w]
    find_toArray_Posts [of "\<lambda>d. bytes (user_id parent) \<in> set (post_likes d)" w]
  by (simp add: User_posts_def User_comments_def User_likedPosts_def)


theorem user_refs_never_written_witness:
  "refs_untouched demo_world (exec demo_bcrypt (AddLikeToPost hi_id ana_id) demo_world) \<and>
   map user_refs (UserCollection (exec demo_bcrypt (AddLikeToPost hi_id ana_id) demo_world)) =
     [([], [], [])] \<and>
   list_all (\<lambda>d. user_refs d = ([], [], []))
     (UserCollection
       (foldl (\<lambda>w m. exec demo_bcrypt m w) empty_world
          [CreateUser ''Ana'' ''ana@x.com'' ''secret'',
           CreatePost ''hi'' ''000000000000000000000000''])) \<and>
   User_posts (user_at 0 ana\<lparr>user_posts := [ObjectId 7 9], user_comments := [],
                 user_likedPosts := []\<rparr>) = User_posts (user_at 0 ana)"
proof -
  have "map user_refs (UserCollection (exec demo_bcrypt (AddLikeToPost hi_id ana_id) demo_world)) =
     [([], [], [])]"
    by code_simp
  then show ?thesis
    using user_refs_never_written [where w = demo_world and B = demo_bcrypt
        and m = "AddLikeToPost hi_id ana_id"
        and ms = "[CreateUser ''Ana'' ''ana@x.com'' ''secret'',
                   CreatePost ''hi'' ''000000000000000000000000'']"
        and parent = "user_at 0 ana" and ps = "[ObjectId 7 9]" and cs = "[]" and ls = "[]"]
    by simp
qed

end
